theory Spec2Isabelle
  imports Main "HOL-Library.AList"
begin

section \<open>Values shared by the four stacks\<close>

text \<open>
  The repository is a CDK application: four stack classes whose constructors create
  constructs, and one program that instantiates them. A construct is created in a scope
  under an id (\<^verbatim>\<open>new ec2.Vpc(this, "FractalVpc", ...)\<close>); a \<open>handle\<close> names it
  by the id of the stack that is its scope and its own id, and is what one construct
  holds of another. A value that only the deployment knows (an endpoint address, a
  resource id) is an attribute of a construct: \<open>Attr\<close>. Numbers of the source
  (ports, counts, sizes) are natural numbers here.
\<close>

type_synonym handle = "string \<times> string"

datatype 'a deferred = Now 'a | Attr handle string

text \<open>The operator \<^verbatim>\<open>??\<close>: the left operand unless it is undefined.\<close>

definition nullish :: "'a option \<Rightarrow> 'a \<Rightarrow> 'a" where
  "nullish x d = (case x of None \<Rightarrow> d | Some v \<Rightarrow> v)"

text \<open>
  \<^verbatim>\<open>String(n)\<close> of a number: its decimal digits, which is what JavaScript gives
  for the natural numbers below \<open>10\<^sup>2\<^sup>1\<close>; the ports of the source are far below. Of a
  number only the deployment knows it is that attribute, as a string.
\<close>

definition digit :: "nat \<Rightarrow> char" where
  "digit d = ''0123456789'' ! d"

function decimal :: "nat \<Rightarrow> string" where
  "decimal n = (if n < 10 then [digit n] else decimal (n div 10) @ [digit (n mod 10)])"
  by pat_completeness auto
termination
  by (relation "measure (\<lambda>n. n)") auto

declare decimal.simps [simp del]

fun String_number :: "nat deferred \<Rightarrow> string deferred" where
  "String_number (Now n) = Now (decimal n)"
| "String_number (Attr h a) = Attr h a"

datatype Duration = seconds nat | days nat

datatype RemovalPolicy = DESTROY | RETAIN

datatype Protocol = TCP

datatype SubnetType = PUBLIC | PRIVATE_WITH_EGRESS | PRIVATE_ISOLATED

record SubnetSelection =
  subnetType :: "SubnetType option"

text \<open>
  What a construct is given as its \<^verbatim>\<open>vpcSubnets\<close>: a selection, or the result of
  \<^verbatim>\<open>vpc.selectSubnets(selection)\<close>, the subnets of that VPC the selection picks.
\<close>

datatype Subnets = Selection SubnetSelection | selectSubnets handle SubnetSelection

record Environment =
  account :: "string option"
  region :: "string option"

record StackProps =
  env :: "Environment option"

section \<open>The constructs\<close>

subsection \<open>Network\<close>

record SubnetConfiguration =
  name :: string
  subnetType :: SubnetType
  cidrMask :: nat

record Vpc =
  node :: handle
  ipAddresses :: string
  natGateways :: nat
  enableDnsHostnames :: bool
  enableDnsSupport :: bool
  subnetConfiguration :: "SubnetConfiguration list"

record PrivateDnsNamespace =
  node :: handle
  name :: string
  vpc :: handle
  description :: string

datatype AwsService =
  S3 | ECR_DOCKER | ECR | CLOUDWATCH_LOGS | SECRETS_MANAGER | SSM | SSM_MESSAGES | EC2_MESSAGES

text \<open>
  A security group and its ingress rules. \<^verbatim>\<open>addIngressRule(peer, connection, description?)\<close>
  appends a rule; the peer is any IPv4 address, the addresses of a CIDR block or another
  security group. \<^verbatim>\<open>new ec2.SecurityGroup(scope, id, {vpc, description, allowAllOutbound})\<close>
  creates a group with no ingress rule yet.
\<close>

datatype Peer = anyIpv4 | ipv4 "string deferred" | SecurityGroupPeer handle

datatype Port = tcp nat

datatype IngressRule = IngressRule Peer Port "string option"

record SecurityGroup =
  node :: handle
  vpc :: handle
  description :: string
  allowAllOutbound :: bool
  ingressRules :: "IngressRule list"

definition new_SecurityGroup :: "handle \<Rightarrow> handle \<Rightarrow> string \<Rightarrow> bool \<Rightarrow> SecurityGroup" where
  "new_SecurityGroup n v d out =
     \<lparr>SecurityGroup.node = n, SecurityGroup.vpc = v, SecurityGroup.description = d,
      allowAllOutbound = out, ingressRules = []\<rparr>"

definition addIngressRule ::
  "SecurityGroup \<Rightarrow> Peer \<Rightarrow> Port \<Rightarrow> string option \<Rightarrow> SecurityGroup" where
  "addIngressRule sg p c d = sg\<lparr>ingressRules := ingressRules sg @ [IngressRule p c d]\<rparr>"

record GatewayVpcEndpoint =
  node :: handle
  vpc :: handle
  service :: AwsService
  subnets :: "SubnetSelection list"

record InterfaceVpcEndpoint =
  node :: handle
  vpc :: handle
  service :: AwsService
  subnets :: SubnetSelection
  securityGroups :: "SecurityGroup list"

text \<open>
  \<^verbatim>\<open>vpc.addGatewayEndpoint(id, options)\<close> and \<^verbatim>\<open>vpc.addInterfaceEndpoint(id, options)\<close>
  create the endpoint in the scope of the VPC. The source passes an interface endpoint no
  security group and leaves \<^verbatim>\<open>open\<close> at its default, so the library gives the
  endpoint a group of its own (in the endpoint's scope, described by its path, all
  outbound traffic allowed) and lets the addresses of the VPC's CIDR block reach it on
  the port of its service, which is 443 for every service of the source.
\<close>

definition child :: "handle \<Rightarrow> string \<Rightarrow> handle" where
  "child h i = (fst h, snd h @ ''/'' @ i)"

definition servicePort :: "AwsService \<Rightarrow> nat" where
  "servicePort s = 443"

definition addGatewayEndpoint ::
  "Vpc \<Rightarrow> string \<Rightarrow> AwsService \<Rightarrow> SubnetSelection list \<Rightarrow> GatewayVpcEndpoint" where
  "addGatewayEndpoint v i s sel =
     \<lparr>GatewayVpcEndpoint.node = child (Vpc.node v) i, vpc = Vpc.node v, service = s, subnets = sel\<rparr>"

definition addInterfaceEndpoint ::
  "Vpc \<Rightarrow> string \<Rightarrow> AwsService \<Rightarrow> SubnetSelection \<Rightarrow> InterfaceVpcEndpoint" where
  "addInterfaceEndpoint v i s sel =
    (let n = child (Vpc.node v) i;
         g = child n ''SecurityGroup''
     in \<lparr>InterfaceVpcEndpoint.node = n,
         vpc = Vpc.node v,
         service = s,
         subnets = sel,
         securityGroups =
           [addIngressRule (new_SecurityGroup g (Vpc.node v) (fst g @ ''/'' @ snd g) True)
              (ipv4 (Attr (Vpc.node v) ''vpcCidrBlock'')) (tcp (servicePort s)) None]\<rparr>)"

record CfnOutput =
  node :: handle
  ovalue :: "string deferred"

subsection \<open>Database\<close>

record InstanceType =
  instanceClass :: string
  instanceSize :: string

datatype PostgresEngineVersion = PostgresEngineVersion_of string string

datatype DatabaseInstanceEngine = postgres PostgresEngineVersion

datatype StorageType = GP3

text \<open>\<^verbatim>\<open>rds.Credentials.fromGeneratedSecret(username, {secretName, excludeCharacters})\<close>.\<close>

record Credentials =
  username :: string
  secretName :: string
  excludeCharacters :: string

record DatabaseInstance =
  node :: handle
  vpc :: handle
  vpcSubnets :: Subnets
  securityGroups :: "handle list"
  engine :: DatabaseInstanceEngine
  credentials :: Credentials
  databaseName :: string
  instanceType :: InstanceType
  multiAz :: bool
  allocatedStorage :: nat
  maxAllocatedStorage :: nat
  storageType :: StorageType
  publiclyAccessible :: bool
  deletionProtection :: bool
  removalPolicy :: RemovalPolicy
  cloudwatchLogsExports :: "string list"
  backupRetention :: Duration

text \<open>
  The attributes the library gives a database instance: its endpoint, known at
  deployment, and its \<^verbatim>\<open>secret\<close>, the generated secret \<open>Secret\<close> in the scope of
  the instance as attached to the instance (\<open>Attachment\<close>, in the scope of the secret).
\<close>

record Endpoint =
  hostname :: "string deferred"
  port :: "nat deferred"
  socketAddress :: "string deferred"

definition instanceEndpoint :: "DatabaseInstance \<Rightarrow> Endpoint" where
  "instanceEndpoint i =
     \<lparr>hostname = Attr (DatabaseInstance.node i) ''Endpoint.Address'',
      port = Attr (DatabaseInstance.node i) ''Endpoint.Port'',
      socketAddress = Attr (DatabaseInstance.node i) ''Endpoint.SocketAddress''\<rparr>"

definition secret :: "DatabaseInstance \<Rightarrow> handle" where
  "secret i = child (child (DatabaseInstance.node i) ''Secret'') ''Attachment''"

subsection \<open>Roles, logs, tasks and services\<close>

datatype Principal = ServicePrincipal string

datatype ManagedPolicyName = fromAwsManagedPolicyName string

record PolicyStatement =
  actions :: "string list"
  resources :: "string deferred list"

text \<open>
  A role, the statements \<^verbatim>\<open>addToPolicy\<close> gave it and the secrets
  \<^verbatim>\<open>secret.grantRead(role)\<close> lets it read.
\<close>

record Role =
  node :: handle
  assumedBy :: Principal
  managedPolicies :: "ManagedPolicyName list"
  description :: "string option"
  statements :: "PolicyStatement list"
  readGrants :: "handle list"

definition addToPolicy :: "Role \<Rightarrow> PolicyStatement \<Rightarrow> Role" where
  "addToPolicy r s = r\<lparr>Role.statements := Role.statements r @ [s]\<rparr>"

definition grantRead :: "handle \<Rightarrow> Role \<Rightarrow> Role" where
  "grantRead s r = r\<lparr>readGrants := readGrants r @ [s]\<rparr>"

record ManagedPolicy =
  node :: handle
  description :: string
  statements :: "PolicyStatement list"

datatype RetentionDays = ONE_WEEK

record LogGroup =
  node :: handle
  retention :: RetentionDays
  removalPolicy :: RemovalPolicy

record Cluster =
  node :: handle
  vpc :: handle
  containerInsights :: bool

datatype ContainerImage = fromRegistry string

record AwsLogDriver =
  streamPrefix :: string
  logGroup :: handle

datatype Secret = fromSecretsManager handle string

record PortMapping =
  containerPort :: nat
  protocol :: Protocol

record MountPoint =
  containerPath :: string
  sourceVolume :: string
  readOnly :: bool

text \<open>
  An object of the source (the environment of a container) is the list of its entries
  in insertion order, with one entry for a key. An object literal, spreads included,
  assigns its entries from left to right: a later entry for a key replaces the value
  and keeps the place.
\<close>

definition object :: "('k \<times> 'v) list \<Rightarrow> ('k \<times> 'v) list" where
  "object entries = fold (\<lambda>(k, v). AList.update k v) entries []"

record ContainerDefinitionOptions =
  image :: ContainerImage
  cpu :: "nat option"
  memoryLimitMiB :: "nat option"
  logging :: AwsLogDriver
  environment :: "(string \<times> string deferred) list"
  secrets :: "(string \<times> Secret) list"
  essential :: bool

record ContainerDefinition = ContainerDefinitionOptions +
  portMappings :: "PortMapping list"
  mountPoints :: "MountPoint list"

record AuthorizationConfig =
  accessPointId :: "string deferred"
  iam :: string

record EfsVolumeConfiguration =
  fileSystemId :: "string deferred"
  transitEncryption :: string
  authorizationConfig :: AuthorizationConfig

record Volume =
  name :: string
  efsVolumeConfiguration :: EfsVolumeConfiguration

record FargateTaskDefinition =
  node :: handle
  cpu :: nat
  memoryLimitMiB :: nat
  executionRole :: handle
  taskRole :: handle
  containers :: "(string \<times> ContainerDefinition) list"
  volumes :: "Volume list"

text \<open>
  \<^verbatim>\<open>taskDef.addContainer(id, options)\<close> adds a container with no port mapping and no
  mount point; \<^verbatim>\<open>container.addPortMappings(...)\<close> and
  \<^verbatim>\<open>container.addMountPoints(...)\<close> append to the container of that id.
\<close>

definition addContainer ::
  "FargateTaskDefinition \<Rightarrow> string \<Rightarrow> ContainerDefinitionOptions \<Rightarrow> FargateTaskDefinition" where
  "addContainer td i opts =
     td\<lparr>containers := containers td @
        [(i, \<lparr>image = image opts,
              ContainerDefinitionOptions.cpu = ContainerDefinitionOptions.cpu opts,
              ContainerDefinitionOptions.memoryLimitMiB = ContainerDefinitionOptions.memoryLimitMiB opts,
              logging = logging opts,
              environment = environment opts,
              secrets = secrets opts,
              essential = essential opts,
              portMappings = [],
              mountPoints = []\<rparr>)]\<rparr>"

definition onContainer ::
  "string \<Rightarrow> (ContainerDefinition \<Rightarrow> ContainerDefinition) \<Rightarrow> FargateTaskDefinition \<Rightarrow> FargateTaskDefinition" where
  "onContainer i f td =
     td\<lparr>containers := map (\<lambda>(j, c). if j = i then (j, f c) else (j, c)) (containers td)\<rparr>"

definition addPortMappings ::
  "FargateTaskDefinition \<Rightarrow> string \<Rightarrow> PortMapping list \<Rightarrow> FargateTaskDefinition" where
  "addPortMappings td i ms = onContainer i (\<lambda>c. c\<lparr>portMappings := portMappings c @ ms\<rparr>) td"

definition addMountPoints ::
  "FargateTaskDefinition \<Rightarrow> string \<Rightarrow> MountPoint list \<Rightarrow> FargateTaskDefinition" where
  "addMountPoints td i ms = onContainer i (\<lambda>c. c\<lparr>mountPoints := mountPoints c @ ms\<rparr>) td"

definition addVolume :: "FargateTaskDefinition \<Rightarrow> Volume \<Rightarrow> FargateTaskDefinition" where
  "addVolume td v = td\<lparr>volumes := volumes td @ [v]\<rparr>"

datatype DnsRecordType = DnsRecordType_A

record CloudMapOptions =
  name :: string
  cloudMapNamespace :: handle
  dnsRecordType :: DnsRecordType
  dnsTtl :: Duration

record FargateService =
  node :: handle
  cluster :: handle
  taskDefinition :: handle
  desiredCount :: nat
  enableExecuteCommand :: bool
  securityGroups :: "handle list"
  vpcSubnets :: Subnets
  assignPublicIp :: bool
  minHealthyPercent :: nat
  maxHealthyPercent :: nat
  cloudMapOptions :: "CloudMapOptions option"
  attachedTargetGroups :: "handle list"

subsection \<open>Load balancer\<close>

record ApplicationLoadBalancer =
  node :: handle
  vpc :: handle
  internetFacing :: bool
  securityGroup :: handle
  vpcSubnets :: Subnets

record ApplicationListener =
  node :: handle
  loadBalancer :: handle
  port :: nat
  open' :: bool
  targetGroups :: "(string \<times> handle list) list"

datatype ApplicationProtocol = HTTP

datatype TargetType = IP

record HealthCheck =
  path :: string
  healthyHttpCodes :: string
  interval :: Duration

record ApplicationTargetGroup =
  node :: handle
  vpc :: handle
  port :: nat
  protocol :: ApplicationProtocol
  targetType :: TargetType
  healthCheck :: HealthCheck
  deregistrationDelay :: Duration

text \<open>
  \<^verbatim>\<open>loadBalancer.addListener(id, {port, open})\<close> creates the listener in the scope of
  the load balancer; \<^verbatim>\<open>listener.addTargetGroups(id, {targetGroups})\<close> gives it target
  groups; \<^verbatim>\<open>service.attachToApplicationTargetGroup(tg)\<close> registers the service
  with the target group. With \<^verbatim>\<open>open\<close> the library lets any IPv4 address reach
  the load balancer's group on the listener's port, and with the registration it lets
  the load balancer's group reach the service's group on the container's first port:
  for the groups and ports of the application these are the rules \<open>HTTP from anywhere\<close>
  and \<open>Engine RPC from ALB only\<close> that the network stack has already, and a group
  holds a rule once.
\<close>

definition addListener ::
  "ApplicationLoadBalancer \<Rightarrow> string \<Rightarrow> nat \<Rightarrow> bool \<Rightarrow> ApplicationListener" where
  "addListener lb i p opn =
     \<lparr>ApplicationListener.node = child (ApplicationLoadBalancer.node lb) i,
      loadBalancer = ApplicationLoadBalancer.node lb,
      ApplicationListener.port = p,
      open' = opn,
      targetGroups = []\<rparr>"

definition addTargetGroups ::
  "ApplicationListener \<Rightarrow> string \<Rightarrow> ApplicationTargetGroup list \<Rightarrow> ApplicationListener" where
  "addTargetGroups l i tgs =
     l\<lparr>targetGroups := targetGroups l @ [(i, map ApplicationTargetGroup.node tgs)]\<rparr>"

definition attachToApplicationTargetGroup ::
  "FargateService \<Rightarrow> ApplicationTargetGroup \<Rightarrow> FargateService" where
  "attachToApplicationTargetGroup s tg =
     s\<lparr>attachedTargetGroups := attachedTargetGroups s @ [ApplicationTargetGroup.node tg]\<rparr>"

subsection \<open>File system\<close>

datatype LifecyclePolicy = AFTER_14_DAYS

datatype PerformanceMode = GENERAL_PURPOSE

datatype ThroughputMode = BURSTING

text \<open>
  \<^verbatim>\<open>fs.connections.allowDefaultPortFrom(peer, description)\<close> lets the peer reach the
  file system on the file system's default port.
\<close>

record FileSystem =
  node :: handle
  vpc :: handle
  vpcSubnets :: Subnets
  lifecyclePolicy :: LifecyclePolicy
  performanceMode :: PerformanceMode
  throughputMode :: ThroughputMode
  removalPolicy :: RemovalPolicy
  defaultPortFrom :: "(Peer \<times> string) list"

definition allowDefaultPortFrom :: "FileSystem \<Rightarrow> Peer \<Rightarrow> string \<Rightarrow> FileSystem" where
  "allowDefaultPortFrom fs p d = fs\<lparr>defaultPortFrom := defaultPortFrom fs @ [(p, d)]\<rparr>"

record Acl =
  ownerUid :: string
  ownerGid :: string
  permissions :: string

record AccessPoint =
  node :: handle
  fileSystem :: handle
  path :: string
  createAcl :: Acl

section \<open>Stacks\<close>

datatype Resource =
    VpcR Vpc
  | PrivateDnsNamespaceR PrivateDnsNamespace
  | GatewayVpcEndpointR GatewayVpcEndpoint
  | InterfaceVpcEndpointR InterfaceVpcEndpoint
  | SecurityGroupR SecurityGroup
  | CfnOutputR CfnOutput
  | DatabaseInstanceR DatabaseInstance
  | RoleR Role
  | ManagedPolicyR ManagedPolicy
  | LogGroupR LogGroup
  | ClusterR Cluster
  | FargateTaskDefinitionR FargateTaskDefinition
  | FargateServiceR FargateService
  | ApplicationLoadBalancerR ApplicationLoadBalancer
  | ApplicationListenerR ApplicationListener
  | ApplicationTargetGroupR ApplicationTargetGroup
  | FileSystemR FileSystem
  | AccessPointR AccessPoint

text \<open>
  A stack: its id, the environment its properties gave it, the stacks
  \<^verbatim>\<open>addDependency\<close> named, and the constructs its constructor created, in the
  order of their creation and as the constructor left them.
\<close>

record Stack =
  stackId :: string
  stackEnv :: "Environment option"
  dependencies :: "string list"
  constructs :: "Resource list"

definition addDependency :: "('a Stack_scheme) \<Rightarrow> ('b Stack_scheme) \<Rightarrow> ('a Stack_scheme)" where
  "addDependency s t = s\<lparr>dependencies := dependencies s @ [stackId t]\<rparr>"

subsection \<open>NetworkStack\<close>

text \<open>
  Each stack constructor is given here construct by construct: one definition for each
  construct it creates, holding the construct as the constructor leaves it (created, then
  changed by the calls made on it), and the constructor itself, which binds them in the
  order of the source and collects them.
\<close>

record NetworkStackProps = StackProps +
  cidr :: "string option"
  natGateways :: "nat option"

record NetworkStack = Stack +
  vpc :: Vpc
  namespace :: PrivateDnsNamespace
  albSg :: SecurityGroup
  engineSg :: SecurityGroup
  rdsSg :: SecurityGroup
  dogeSg :: SecurityGroup

text \<open>
  The constructor takes its properties as an optional argument and reads them with
  \<^verbatim>\<open>props?.cidr\<close> and \<^verbatim>\<open>props?.natGateways\<close>.
\<close>

definition network_vpc :: "string \<Rightarrow> NetworkStackProps option \<Rightarrow> Vpc" where
  "network_vpc id' props =
     \<lparr>Vpc.node = (id', ''FractalVpc''),
      ipAddresses = nullish (Option.bind props cidr) ''10.0.0.0/16'',
      Vpc.natGateways = nullish (Option.bind props NetworkStackProps.natGateways) 1,
      enableDnsHostnames = True,
      enableDnsSupport = True,
      subnetConfiguration =
        [\<lparr>SubnetConfiguration.name = ''public'',
          SubnetConfiguration.subnetType = PUBLIC, cidrMask = 24\<rparr>,
         \<lparr>SubnetConfiguration.name = ''app'',
          SubnetConfiguration.subnetType = PRIVATE_WITH_EGRESS, cidrMask = 24\<rparr>,
         \<lparr>SubnetConfiguration.name = ''data'',
          SubnetConfiguration.subnetType = PRIVATE_ISOLATED, cidrMask = 24\<rparr>]\<rparr>"

definition network_namespace :: "string \<Rightarrow> Vpc \<Rightarrow> PrivateDnsNamespace" where
  "network_namespace id' vpc' =
     \<lparr>PrivateDnsNamespace.node = (id', ''ServiceNamespace''),
      PrivateDnsNamespace.name = ''fractal.local'',
      PrivateDnsNamespace.vpc = Vpc.node vpc',
      PrivateDnsNamespace.description = ''Private DNS for Fractal services''\<rparr>"

definition network_gatewayEndpoints :: "Vpc \<Rightarrow> GatewayVpcEndpoint list" where
  "network_gatewayEndpoints vpc' =
     [addGatewayEndpoint vpc' ''S3Endpoint'' S3
        [\<lparr>SubnetSelection.subnetType = Some PRIVATE_WITH_EGRESS\<rparr>,
         \<lparr>SubnetSelection.subnetType = Some PRIVATE_ISOLATED\<rparr>]]"

definition network_interfaceEndpoints :: "Vpc \<Rightarrow> InterfaceVpcEndpoint list" where
  "network_interfaceEndpoints vpc' =
     [addInterfaceEndpoint vpc' ''EcrDockerEndpoint'' ECR_DOCKER
        \<lparr>SubnetSelection.subnetType = Some PRIVATE_WITH_EGRESS\<rparr>,
      addInterfaceEndpoint vpc' ''EcrApiEndpoint'' ECR
        \<lparr>SubnetSelection.subnetType = Some PRIVATE_WITH_EGRESS\<rparr>,
      addInterfaceEndpoint vpc' ''LogsEndpoint'' CLOUDWATCH_LOGS
        \<lparr>SubnetSelection.subnetType = Some PRIVATE_WITH_EGRESS\<rparr>,
      addInterfaceEndpoint vpc' ''SecretsManagerEndpoint'' SECRETS_MANAGER
        \<lparr>SubnetSelection.subnetType = Some PRIVATE_WITH_EGRESS\<rparr>,
      addInterfaceEndpoint vpc' ''SsmEndpoint'' SSM
        \<lparr>SubnetSelection.subnetType = Some PRIVATE_WITH_EGRESS\<rparr>,
      addInterfaceEndpoint vpc' ''SsmMessagesEndpoint'' SSM_MESSAGES
        \<lparr>SubnetSelection.subnetType = Some PRIVATE_WITH_EGRESS\<rparr>,
      addInterfaceEndpoint vpc' ''Ec2MessagesEndpoint'' EC2_MESSAGES
        \<lparr>SubnetSelection.subnetType = Some PRIVATE_WITH_EGRESS\<rparr>]"

definition network_albSg :: "string \<Rightarrow> Vpc \<Rightarrow> SecurityGroup" where
  "network_albSg id' vpc' =
     addIngressRule
       (new_SecurityGroup (id', ''AlbSg'') (Vpc.node vpc') ''ALB security group'' True)
       anyIpv4 (tcp 80) (Some ''HTTP from anywhere'')"

definition network_engineSg :: "string \<Rightarrow> Vpc \<Rightarrow> SecurityGroup \<Rightarrow> SecurityGroup" where
  "network_engineSg id' vpc' albSg' =
     addIngressRule
       (new_SecurityGroup (id', ''EngineSg'') (Vpc.node vpc') ''Fractal Engine security group'' True)
       (SecurityGroupPeer (SecurityGroup.node albSg')) (tcp 8891) (Some ''Engine RPC from ALB only'')"

definition network_rdsSg :: "string \<Rightarrow> Vpc \<Rightarrow> SecurityGroup \<Rightarrow> SecurityGroup" where
  "network_rdsSg id' vpc' engineSg' =
     addIngressRule
       (new_SecurityGroup (id', ''RdsSg'') (Vpc.node vpc') ''RDS security group'' True)
       (SecurityGroupPeer (SecurityGroup.node engineSg')) (tcp 5432) (Some ''Postgres from Engine only'')"

definition network_dogeSg :: "string \<Rightarrow> Vpc \<Rightarrow> SecurityGroup \<Rightarrow> SecurityGroup" where
  "network_dogeSg id' vpc' engineSg' =
     addIngressRule
       (addIngressRule
          (addIngressRule
             (new_SecurityGroup (id', ''DogeSg'') (Vpc.node vpc') ''Dogecoin Node security group'' True)
             (SecurityGroupPeer (SecurityGroup.node engineSg')) (tcp 22555)
             (Some ''Dogecoin RPC from Engine only''))
          (SecurityGroupPeer (SecurityGroup.node engineSg')) (tcp 22556)
          (Some ''Dogecoin P2P from Engine only''))
       (SecurityGroupPeer (SecurityGroup.node engineSg')) (tcp 28000)
       (Some ''Dogecoin ZMQ from Engine only'')"

definition network_outputs ::
  "string \<Rightarrow> NetworkStack \<Rightarrow> CfnOutput list" where
  "network_outputs id' this =
     [\<lparr>CfnOutput.node = (id', ''VpcId''),
       ovalue = Attr (Vpc.node (NetworkStack.vpc this)) ''vpcId''\<rparr>,
      \<lparr>CfnOutput.node = (id', ''AlbSgId''),
       ovalue = Attr (SecurityGroup.node (albSg this)) ''securityGroupId''\<rparr>,
      \<lparr>CfnOutput.node = (id', ''EngineSgId''),
       ovalue = Attr (SecurityGroup.node (engineSg this)) ''securityGroupId''\<rparr>,
      \<lparr>CfnOutput.node = (id', ''RdsSgId''),
       ovalue = Attr (SecurityGroup.node (rdsSg this)) ''securityGroupId''\<rparr>,
      \<lparr>CfnOutput.node = (id', ''DogeSgId''),
       ovalue = Attr (SecurityGroup.node (dogeSg this)) ''securityGroupId''\<rparr>,
      \<lparr>CfnOutput.node = (id', ''NamespaceId''),
       ovalue = Attr (PrivateDnsNamespace.node (NetworkStack.namespace this)) ''namespaceId''\<rparr>]"

definition new_NetworkStack :: "string \<Rightarrow> NetworkStackProps option \<Rightarrow> NetworkStack" where
  "new_NetworkStack id' props =
    (let vpc = network_vpc id' props;
         namespace = network_namespace id' vpc;
         albSg = network_albSg id' vpc;
         engineSg = network_engineSg id' vpc albSg;
         rdsSg = network_rdsSg id' vpc engineSg;
         dogeSg = network_dogeSg id' vpc engineSg;
         this = \<lparr>stackId = id',
                 stackEnv = Option.bind props env,
                 dependencies = [],
                 constructs =
                   [VpcR vpc, PrivateDnsNamespaceR namespace]
                   @ map GatewayVpcEndpointR (network_gatewayEndpoints vpc)
                   @ map InterfaceVpcEndpointR (network_interfaceEndpoints vpc)
                   @ [SecurityGroupR albSg, SecurityGroupR engineSg,
                      SecurityGroupR rdsSg, SecurityGroupR dogeSg],
                 NetworkStack.vpc = vpc,
                 NetworkStack.namespace = namespace,
                 albSg = albSg,
                 engineSg = engineSg,
                 rdsSg = rdsSg,
                 dogeSg = dogeSg\<rparr>
     in this\<lparr>constructs := constructs this @ map CfnOutputR (network_outputs id' this)\<rparr>)"

subsection \<open>DatabaseStack\<close>

record DatabaseStackProps = StackProps +
  vpc :: handle
  rdsSecurityGroup :: handle
  databaseName :: "string option"
  dbSubnetSelection :: "SubnetSelection option"
  instanceType :: "InstanceType option"
  multiAz :: "bool option"
  allocatedStorageGiB :: "nat option"
  maxAllocatedStorageGiB :: "nat option"
  deletionProtection :: "bool option"
  backupRetentionDays :: "nat option"
  credentialsSecretName :: "string option"

record DatabaseStack = Stack +
  rdsInstance :: DatabaseInstance
  rdsSecret :: handle

text \<open>
  The characters the generated password leaves out, as the source's string literal
  denotes them: the double quote first, and one backslash after the slash.
\<close>

definition excluded :: string where
  "excluded = [CHR 0x22] @ ''@/'' @ [CHR 0x5C] @ '':?#[]{}|^~;=%&+()<>''"

definition db_dbCredentials :: "DatabaseStackProps \<Rightarrow> Credentials" where
  "db_dbCredentials props =
     \<lparr>username = ''fractal_engine'',
      secretName = nullish (credentialsSecretName props) ''FractalEngineRdsCredentials'',
      excludeCharacters = excluded\<rparr>"

definition db_rdsInstance :: "string \<Rightarrow> DatabaseStackProps \<Rightarrow> DatabaseInstance" where
  "db_rdsInstance id' props =
    (let databaseName = nullish (DatabaseStackProps.databaseName props) ''fractal'';
         dbCredentials = db_dbCredentials props
     in \<lparr>DatabaseInstance.node = (id', ''FractalDb''),
         DatabaseInstance.vpc = DatabaseStackProps.vpc props,
         DatabaseInstance.vpcSubnets =
           Selection (nullish (dbSubnetSelection props)
                        \<lparr>SubnetSelection.subnetType = Some PRIVATE_ISOLATED\<rparr>),
         DatabaseInstance.securityGroups = [rdsSecurityGroup props],
         engine = postgres (PostgresEngineVersion_of ''15'' ''15''),
         credentials = dbCredentials,
         DatabaseInstance.databaseName = databaseName,
         DatabaseInstance.instanceType =
           nullish (DatabaseStackProps.instanceType props)
             \<lparr>instanceClass = ''T3'', instanceSize = ''MICRO''\<rparr>,
         DatabaseInstance.multiAz = nullish (DatabaseStackProps.multiAz props) False,
         allocatedStorage = nullish (allocatedStorageGiB props) 20,
         maxAllocatedStorage = nullish (maxAllocatedStorageGiB props) 100,
         storageType = GP3,
         publiclyAccessible = False,
         DatabaseInstance.deletionProtection =
           nullish (DatabaseStackProps.deletionProtection props) False,
         DatabaseInstance.removalPolicy = DESTROY,
         cloudwatchLogsExports = [''postgresql''],
         backupRetention = days (nullish (backupRetentionDays props) 3)\<rparr>)"

definition db_outputs :: "string \<Rightarrow> DatabaseStack \<Rightarrow> CfnOutput list" where
  "db_outputs id' this =
     [\<lparr>CfnOutput.node = (id', ''RdsEndpoint''),
       ovalue = socketAddress (instanceEndpoint (rdsInstance this))\<rparr>,
      \<lparr>CfnOutput.node = (id', ''RdsSecretName''),
       ovalue = Attr (rdsSecret this) ''secretName''\<rparr>]"

definition new_DatabaseStack :: "string \<Rightarrow> DatabaseStackProps \<Rightarrow> DatabaseStack" where
  "new_DatabaseStack id' props =
    (let rdsInstance = db_rdsInstance id' props;
         this = \<lparr>stackId = id',
                 stackEnv = env props,
                 dependencies = [],
                 constructs = [DatabaseInstanceR rdsInstance],
                 rdsInstance = rdsInstance,
                 rdsSecret = secret rdsInstance\<rparr>
     in this\<lparr>constructs := constructs this @ map CfnOutputR (db_outputs id' this)\<rparr>)"

subsection \<open>DogecoinStack\<close>

record DogecoinStackProps = StackProps +
  vpc :: handle
  dogeSecurityGroup :: handle
  namespace :: handle
  subnetSelection :: "SubnetSelection option"
  desiredCount :: "nat option"
  cpu :: "nat option"
  memoryMiB :: "nat option"
  containerImage :: "ContainerImage option"
  namespaceName :: "string option"
  serviceName :: "string option"
  rpcPort :: "nat option"
  p2pPort :: "nat option"
  zmqPort :: "nat option"
  environment :: "(string \<times> string) list option"

record DogecoinStack = Stack +
  cluster :: Cluster
  service :: FargateService
  serviceDiscoveryName :: string
  rpcPort :: nat
  zmqPort :: nat

text \<open>
  The two roles of a task and the policy for operators of ECS Exec, which the Dogecoin
  and the engine stack create alike but for ids and descriptions.
\<close>

definition new_Role ::
  "handle \<Rightarrow> Principal \<Rightarrow> ManagedPolicyName list \<Rightarrow> string option \<Rightarrow> Role" where
  "new_Role n p ms d =
     \<lparr>Role.node = n, assumedBy = p, managedPolicies = ms, Role.description = d,
      Role.statements = [], readGrants = []\<rparr>"

definition new_taskExecutionRole :: "handle \<Rightarrow> Role" where
  "new_taskExecutionRole n =
     new_Role n (ServicePrincipal ''ecs-tasks.amazonaws.com'')
       [fromAwsManagedPolicyName ''service-role/AmazonECSTaskExecutionRolePolicy'',
        fromAwsManagedPolicyName ''AmazonSSMManagedInstanceCore'']
       None"

definition new_ecsExecOperatorPolicy :: "handle \<Rightarrow> ManagedPolicy" where
  "new_ecsExecOperatorPolicy n =
     \<lparr>ManagedPolicy.node = n,
      ManagedPolicy.description = ''Allows operators to run ECS Exec and manage SSM sessions'',
      ManagedPolicy.statements =
        [\<lparr>actions = [''ecs:ExecuteCommand''], resources = [Now ''*'']\<rparr>,
         \<lparr>actions = [''ssm:StartSession'', ''ssm:DescribeSessions'', ''ssm:TerminateSession''],
          resources = [Now ''*'']\<rparr>,
         \<lparr>actions = [''kms:Decrypt''], resources = [Now ''*'']\<rparr>]\<rparr>"

definition new_LogGroup :: "handle \<Rightarrow> LogGroup" where
  "new_LogGroup n = \<lparr>LogGroup.node = n, retention = ONE_WEEK, LogGroup.removalPolicy = DESTROY\<rparr>"

definition new_FargateTaskDefinition :: "handle \<Rightarrow> nat \<Rightarrow> nat \<Rightarrow> Role \<Rightarrow> Role \<Rightarrow> FargateTaskDefinition" where
  "new_FargateTaskDefinition n c m er tr =
     \<lparr>FargateTaskDefinition.node = n,
      FargateTaskDefinition.cpu = c,
      FargateTaskDefinition.memoryLimitMiB = m,
      executionRole = Role.node er,
      taskRole = Role.node tr,
      containers = [],
      volumes = []\<rparr>"

definition doge_cluster :: "string \<Rightarrow> DogecoinStackProps \<Rightarrow> Cluster" where
  "doge_cluster id' props =
     \<lparr>Cluster.node = (id', ''DogecoinCluster''),
      Cluster.vpc = DogecoinStackProps.vpc props,
      containerInsights = True\<rparr>"

definition doge_subnets :: "DogecoinStackProps \<Rightarrow> Subnets" where
  "doge_subnets props =
     selectSubnets (DogecoinStackProps.vpc props)
       \<lparr>SubnetSelection.subnetType = Some PRIVATE_WITH_EGRESS\<rparr>"

definition doge_dogeEfs :: "string \<Rightarrow> DogecoinStackProps \<Rightarrow> Subnets \<Rightarrow> FileSystem" where
  "doge_dogeEfs id' props subnets' =
     allowDefaultPortFrom
       \<lparr>FileSystem.node = (id', ''DogecoinEfs''),
        FileSystem.vpc = DogecoinStackProps.vpc props,
        FileSystem.vpcSubnets = subnets',
        lifecyclePolicy = AFTER_14_DAYS,
        performanceMode = GENERAL_PURPOSE,
        throughputMode = BURSTING,
        FileSystem.removalPolicy = RETAIN,
        defaultPortFrom = []\<rparr>
       (SecurityGroupPeer (dogeSecurityGroup props)) ''Allow NFS from Dogecoin tasks''"

definition doge_dogeEfsAp :: "string \<Rightarrow> FileSystem \<Rightarrow> AccessPoint" where
  "doge_dogeEfsAp id' dogeEfs =
     \<lparr>AccessPoint.node = (id', ''DogecoinEfsAp''),
      fileSystem = FileSystem.node dogeEfs,
      AccessPoint.path = ''/dogecoin'',
      createAcl = \<lparr>ownerUid = ''0'', ownerGid = ''0'', permissions = ''0777''\<rparr>\<rparr>"

definition doge_executionRole :: "string \<Rightarrow> FileSystem \<Rightarrow> AccessPoint \<Rightarrow> Role" where
  "doge_executionRole id' dogeEfs dogeEfsAp =
     addToPolicy (new_taskExecutionRole (id', ''DogecoinTaskExecutionRole''))
       \<lparr>actions =
          [''elasticfilesystem:ClientMount'', ''elasticfilesystem:ClientWrite'',
           ''elasticfilesystem:DescribeMountTargets'', ''elasticfilesystem:DescribeAccessPoints''],
        resources = [Attr (FileSystem.node dogeEfs) ''fileSystemArn'',
                     Attr (AccessPoint.node dogeEfsAp) ''accessPointArn'']\<rparr>"

definition doge_taskRole :: "string \<Rightarrow> Role" where
  "doge_taskRole id' =
     addToPolicy
       (new_Role (id', ''DogecoinTaskRole'') (ServicePrincipal ''ecs-tasks.amazonaws.com'') []
          (Some ''Task role for Dogecoin node''))
       \<lparr>actions =
          [''ssm:CreateControlChannel'', ''ssm:CreateDataChannel'',
           ''ssm:OpenControlChannel'', ''ssm:OpenDataChannel'',
           ''elasticfilesystem:ClientMount'', ''elasticfilesystem:ClientWrite'',
           ''elasticfilesystem:DescribeMountTargets'', ''elasticfilesystem:DescribeAccessPoints''],
        resources = [Now ''*'']\<rparr>"

definition doge_container :: "DogecoinStackProps \<Rightarrow> nat \<Rightarrow> nat \<Rightarrow> LogGroup \<Rightarrow> ContainerDefinitionOptions" where
  "doge_container props cpu' memoryMiB' logGroup' =
     \<lparr>image = nullish (containerImage props)
                (fromRegistry ''docker.io/danielwhelansb/dogecoin:v1.14.9''),
      ContainerDefinitionOptions.cpu = Some cpu',
      ContainerDefinitionOptions.memoryLimitMiB = Some memoryMiB',
      logging = \<lparr>streamPrefix = ''dogecoin'', logGroup = LogGroup.node logGroup'\<rparr>,
      ContainerDefinitionOptions.environment =
        object (map (\<lambda>(k, v). (k, Now v)) (nullish (DogecoinStackProps.environment props) [])
                @ [(''DATADIR'', Now ''/data'')]),
      secrets = [],
      essential = True\<rparr>"

definition doge_taskDef ::
  "string \<Rightarrow> DogecoinStackProps \<Rightarrow> FileSystem \<Rightarrow> AccessPoint \<Rightarrow> Role \<Rightarrow> Role \<Rightarrow> LogGroup
     \<Rightarrow> FargateTaskDefinition" where
  "doge_taskDef id' props dogeEfs dogeEfsAp executionRole' taskRole' logGroup' =
    (let cpu = nullish (DogecoinStackProps.cpu props) 512;
         memoryMiB = nullish (DogecoinStackProps.memoryMiB props) 1024;
         rpcPort = nullish (DogecoinStackProps.rpcPort props) 22555;
         p2pPort = nullish (DogecoinStackProps.p2pPort props) 22556;
         zmqPort = nullish (DogecoinStackProps.zmqPort props) 28000;
         taskDef0 = new_FargateTaskDefinition (id', ''DogecoinTaskDef'') cpu memoryMiB
                      executionRole' taskRole';
         taskDef1 = addVolume taskDef0
           \<lparr>Volume.name = ''dogecoin-data'',
            efsVolumeConfiguration =
              \<lparr>fileSystemId = Attr (FileSystem.node dogeEfs) ''fileSystemId'',
               transitEncryption = ''ENABLED'',
               authorizationConfig =
                 \<lparr>accessPointId = Attr (AccessPoint.node dogeEfsAp) ''accessPointId'',
                  iam = ''ENABLED''\<rparr>\<rparr>\<rparr>;
         taskDef2 = addContainer taskDef1 ''Dogecoin'' (doge_container props cpu memoryMiB logGroup');
         taskDef3 = addMountPoints taskDef2 ''Dogecoin''
           [\<lparr>containerPath = ''/data'', sourceVolume = ''dogecoin-data'', readOnly = False\<rparr>]
     in addPortMappings taskDef3 ''Dogecoin''
          [\<lparr>containerPort = rpcPort, PortMapping.protocol = TCP\<rparr>,
           \<lparr>containerPort = p2pPort, PortMapping.protocol = TCP\<rparr>,
           \<lparr>containerPort = zmqPort, PortMapping.protocol = TCP\<rparr>])"

definition doge_service ::
  "string \<Rightarrow> DogecoinStackProps \<Rightarrow> Cluster \<Rightarrow> FargateTaskDefinition \<Rightarrow> Subnets \<Rightarrow> FargateService" where
  "doge_service id' props cluster' taskDef subnets' =
     \<lparr>FargateService.node = (id', ''DogecoinService''),
      FargateService.cluster = Cluster.node cluster',
      taskDefinition = FargateTaskDefinition.node taskDef,
      FargateService.desiredCount = nullish (DogecoinStackProps.desiredCount props) 1,
      enableExecuteCommand = True,
      FargateService.securityGroups = [dogeSecurityGroup props],
      FargateService.vpcSubnets = subnets',
      assignPublicIp = False,
      minHealthyPercent = 100,
      maxHealthyPercent = 200,
      cloudMapOptions =
        Some \<lparr>CloudMapOptions.name = nullish (serviceName props) ''dogecoin'',
              cloudMapNamespace = DogecoinStackProps.namespace props,
              dnsRecordType = DnsRecordType_A,
              dnsTtl = seconds 30\<rparr>,
      attachedTargetGroups = []\<rparr>"

definition doge_outputs :: "string \<Rightarrow> DogecoinStack \<Rightarrow> CfnOutput list" where
  "doge_outputs id' this =
     [\<lparr>CfnOutput.node = (id', ''DogecoinServiceDiscoveryName''),
       ovalue = Now (serviceDiscoveryName this)\<rparr>,
      \<lparr>CfnOutput.node = (id', ''DogecoinRpcPort''),
       ovalue = String_number (Now (DogecoinStack.rpcPort this))\<rparr>,
      \<lparr>CfnOutput.node = (id', ''DogecoinZmqPort''),
       ovalue = String_number (Now (DogecoinStack.zmqPort this))\<rparr>]"

definition new_DogecoinStack :: "string \<Rightarrow> DogecoinStackProps \<Rightarrow> DogecoinStack" where
  "new_DogecoinStack id' props =
    (let rpcPort = nullish (DogecoinStackProps.rpcPort props) 22555;
         zmqPort = nullish (DogecoinStackProps.zmqPort props) 28000;
         namespaceName = nullish (DogecoinStackProps.namespaceName props) ''fractal.local'';
         serviceName = nullish (DogecoinStackProps.serviceName props) ''dogecoin'';
         cluster = doge_cluster id' props;
         subnets = doge_subnets props;
         dogeEfs = doge_dogeEfs id' props subnets;
         dogeEfsAp = doge_dogeEfsAp id' dogeEfs;
         executionRole = doge_executionRole id' dogeEfs dogeEfsAp;
         taskRole = doge_taskRole id';
         ecsExecOperatorPolicy = new_ecsExecOperatorPolicy (id', ''EcsExecOperatorPolicy'');
         logGroup = new_LogGroup (id', ''DogecoinLogs'');
         taskDef = doge_taskDef id' props dogeEfs dogeEfsAp executionRole taskRole logGroup;
         service = doge_service id' props cluster taskDef subnets;
         this = \<lparr>stackId = id',
                 stackEnv = env props,
                 dependencies = [],
                 constructs =
                   [ClusterR cluster,
                    FileSystemR dogeEfs,
                    AccessPointR dogeEfsAp,
                    RoleR executionRole,
                    RoleR taskRole,
                    ManagedPolicyR ecsExecOperatorPolicy,
                    FargateTaskDefinitionR taskDef,
                    LogGroupR logGroup,
                    FargateServiceR service],
                 DogecoinStack.cluster = cluster,
                 DogecoinStack.service = service,
                 serviceDiscoveryName = serviceName @ ''.'' @ namespaceName,
                 DogecoinStack.rpcPort = rpcPort,
                 DogecoinStack.zmqPort = zmqPort\<rparr>
     in this\<lparr>constructs := constructs this @ map CfnOutputR (doge_outputs id' this)\<rparr>)"

subsection \<open>EngineStack\<close>

record DogecoinConnection =
  host :: string
  rpcPort :: "nat option"
  zmqPort :: "nat option"

record EngineStackProps = StackProps +
  vpc :: handle
  albSecurityGroup :: handle
  engineSecurityGroup :: handle
  dbHost :: "string deferred"
  dbPort :: "nat deferred option"
  dbSecret :: handle
  databaseName :: "string option"
  dogecoin :: "DogecoinConnection option"
  desiredCount :: "nat option"
  cpu :: "nat option"
  memoryMiB :: "nat option"
  engineContainerImage :: "ContainerImage option"
  appSubnetSelection :: "SubnetSelection option"
  albSubnetSelection :: "SubnetSelection option"

record EngineStack = Stack +
  cluster :: Cluster
  service :: FargateService
  loadBalancer :: ApplicationLoadBalancer

text \<open>
  The condition \<^verbatim>\<open>props.dogecoin?.host\<close> holds when a connection is given and
  its host is not the empty string; the three entries it guards are spread into the
  environment after the six that are always there.
\<close>

fun truthy :: "string option \<Rightarrow> bool" where
  "truthy None = False"
| "truthy (Some s) = (s \<noteq> [])"

definition dogecoinEnvironment :: "DogecoinConnection option \<Rightarrow> (string \<times> string deferred) list" where
  "dogecoinEnvironment conn =
     (if truthy (map_option host conn)
      then (case conn of
              None \<Rightarrow> []
            | Some d \<Rightarrow>
                [(''DOGE_HOST'', Now (host d)),
                 (''DOGE_PORT'', String_number (Now (nullish (DogecoinConnection.rpcPort d) 22555))),
                 (''DOGECOIN_ZMQ_PORT'',
                    String_number (Now (nullish (DogecoinConnection.zmqPort d) 28000)))])
      else [])"

definition engine_cluster :: "string \<Rightarrow> EngineStackProps \<Rightarrow> Cluster" where
  "engine_cluster id' props =
     \<lparr>Cluster.node = (id', ''FractalCluster''),
      Cluster.vpc = EngineStackProps.vpc props,
      containerInsights = True\<rparr>"

definition engine_taskRole :: "string \<Rightarrow> EngineStackProps \<Rightarrow> Role" where
  "engine_taskRole id' props =
     addToPolicy
       (grantRead (dbSecret props)
          (new_Role (id', ''TaskRole'') (ServicePrincipal ''ecs-tasks.amazonaws.com'') []
             (Some ''Task role for Fractal Engine (access to Secrets Manager, etc.)'')))
       \<lparr>actions =
          [''ssm:CreateControlChannel'', ''ssm:CreateDataChannel'',
           ''ssm:OpenControlChannel'', ''ssm:OpenDataChannel''],
        resources = [Now ''*'']\<rparr>"

definition engine_container :: "EngineStackProps \<Rightarrow> LogGroup \<Rightarrow> ContainerDefinitionOptions" where
  "engine_container props logGroup' =
    (let databaseName = nullish (EngineStackProps.databaseName props) ''fractal''
     in \<lparr>image = nullish (engineContainerImage props)
                   (fromRegistry ''ghcr.io/dogecoinfoundation/fractal-engine:v0.0.1''),
         ContainerDefinitionOptions.cpu = None,
         ContainerDefinitionOptions.memoryLimitMiB = None,
         logging = \<lparr>streamPrefix = ''engine'', logGroup = LogGroup.node logGroup'\<rparr>,
         ContainerDefinitionOptions.environment =
           object ([(''RPC_SERVER_HOST'', Now ''0.0.0.0''),
                    (''RPC_SERVER_PORT'', Now ''8891''),
                    (''CORS_ALLOWED_ORIGINS'', Now ''*''),
                    (''DATABASE_HOST'', dbHost props),
                    (''DATABASE_PORT'', String_number (nullish (dbPort props) (Now 5432))),
                    (''DATABASE_NAME'', Now databaseName)]
                   @ dogecoinEnvironment (dogecoin props)),
         secrets =
           object [(''DATABASE_USERNAME'', fromSecretsManager (dbSecret props) ''username''),
                   (''DATABASE_PASSWORD'', fromSecretsManager (dbSecret props) ''password'')],
         essential = True\<rparr>)"

definition engine_taskDef ::
  "string \<Rightarrow> EngineStackProps \<Rightarrow> Role \<Rightarrow> Role \<Rightarrow> LogGroup \<Rightarrow> FargateTaskDefinition" where
  "engine_taskDef id' props taskExecutionRole taskRole' logGroup' =
    (let taskDef0 = new_FargateTaskDefinition (id', ''FractalTaskDef'')
                      (nullish (EngineStackProps.cpu props) 512)
                      (nullish (EngineStackProps.memoryMiB props) 1024)
                      taskExecutionRole taskRole';
         taskDef1 = addContainer taskDef0 ''Engine'' (engine_container props logGroup');
         taskDef2 = addPortMappings taskDef1 ''Engine''
                      [\<lparr>containerPort = 8891, PortMapping.protocol = TCP\<rparr>]
     in addPortMappings taskDef2 ''Engine''
          [\<lparr>containerPort = 8086, PortMapping.protocol = TCP\<rparr>])"

definition engine_tg :: "string \<Rightarrow> EngineStackProps \<Rightarrow> ApplicationTargetGroup" where
  "engine_tg id' props =
     \<lparr>ApplicationTargetGroup.node = (id', ''EngineTargetGroup''),
      ApplicationTargetGroup.vpc = EngineStackProps.vpc props,
      ApplicationTargetGroup.port = 8891,
      ApplicationTargetGroup.protocol = HTTP,
      targetType = IP,
      healthCheck = \<lparr>HealthCheck.path = ''/health'',
                      healthyHttpCodes = ''200'',
                      interval = seconds 30\<rparr>,
      deregistrationDelay = seconds 10\<rparr>"

definition engine_service ::
  "string \<Rightarrow> EngineStackProps \<Rightarrow> Cluster \<Rightarrow> FargateTaskDefinition \<Rightarrow> ApplicationTargetGroup
     \<Rightarrow> FargateService" where
  "engine_service id' props cluster' taskDef tg =
     attachToApplicationTargetGroup
       \<lparr>FargateService.node = (id', ''FractalService''),
        FargateService.cluster = Cluster.node cluster',
        taskDefinition = FargateTaskDefinition.node taskDef,
        FargateService.desiredCount = nullish (EngineStackProps.desiredCount props) 1,
        enableExecuteCommand = True,
        FargateService.securityGroups = [engineSecurityGroup props],
        FargateService.vpcSubnets =
          Selection (nullish (appSubnetSelection props)
                       \<lparr>SubnetSelection.subnetType = Some PRIVATE_WITH_EGRESS\<rparr>),
        assignPublicIp = False,
        minHealthyPercent = 100,
        maxHealthyPercent = 200,
        cloudMapOptions = None,
        attachedTargetGroups = []\<rparr>
       tg"

definition engine_loadBalancer :: "string \<Rightarrow> EngineStackProps \<Rightarrow> ApplicationLoadBalancer" where
  "engine_loadBalancer id' props =
     \<lparr>ApplicationLoadBalancer.node = (id', ''FractalAlb''),
      ApplicationLoadBalancer.vpc = EngineStackProps.vpc props,
      internetFacing = True,
      securityGroup = albSecurityGroup props,
      ApplicationLoadBalancer.vpcSubnets =
        Selection (nullish (albSubnetSelection props)
                     \<lparr>SubnetSelection.subnetType = Some PUBLIC\<rparr>)\<rparr>"

definition engine_httpListener ::
  "ApplicationLoadBalancer \<Rightarrow> ApplicationTargetGroup \<Rightarrow> ApplicationListener" where
  "engine_httpListener loadBalancer' tg =
     addTargetGroups (addListener loadBalancer' ''HttpListener'' 80 True) ''AttachEngineTg'' [tg]"

definition engine_outputs :: "string \<Rightarrow> EngineStack \<Rightarrow> ManagedPolicy \<Rightarrow> CfnOutput list" where
  "engine_outputs id' this ecsExecOperatorPolicy =
     [\<lparr>CfnOutput.node = (id', ''AlbDnsName''),
       ovalue = Attr (ApplicationLoadBalancer.node (loadBalancer this)) ''loadBalancerDnsName''\<rparr>,
      \<lparr>CfnOutput.node = (id', ''EcsExecOperatorPolicyArn''),
       ovalue = Attr (ManagedPolicy.node ecsExecOperatorPolicy) ''managedPolicyArn''\<rparr>]"

definition new_EngineStack :: "string \<Rightarrow> EngineStackProps \<Rightarrow> EngineStack" where
  "new_EngineStack id' props =
    (let cluster = engine_cluster id' props;
         taskExecutionRole = new_taskExecutionRole (id', ''TaskExecutionRole'');
         taskRole = engine_taskRole id' props;
         ecsExecOperatorPolicy = new_ecsExecOperatorPolicy (id', ''EcsExecOperatorPolicy'');
         logGroup = new_LogGroup (id', ''EngineLogs'');
         taskDef = engine_taskDef id' props taskExecutionRole taskRole logGroup;
         tg = engine_tg id' props;
         service = engine_service id' props cluster taskDef tg;
         loadBalancer = engine_loadBalancer id' props;
         httpListener = engine_httpListener loadBalancer tg;
         this = \<lparr>stackId = id',
                 stackEnv = env props,
                 dependencies = [],
                 constructs =
                   [ClusterR cluster,
                    RoleR taskExecutionRole,
                    RoleR taskRole,
                    ManagedPolicyR ecsExecOperatorPolicy,
                    FargateTaskDefinitionR taskDef,
                    LogGroupR logGroup,
                    FargateServiceR service,
                    ApplicationLoadBalancerR loadBalancer,
                    ApplicationListenerR httpListener,
                    ApplicationTargetGroupR tg],
                 EngineStack.cluster = cluster,
                 EngineStack.service = service,
                 loadBalancer = loadBalancer\<rparr>
     in this\<lparr>constructs :=
               constructs this @ map CfnOutputR (engine_outputs id' this ecsExecOperatorPolicy)\<rparr>)"

section \<open>The application\<close>

text \<open>
  The program creates the application, reads two variables of the process environment
  for the deployment environment of the stacks, creates the four stacks,
  each from the properties built here out of the stacks before it, and last makes the
  engine stack depend on the Dogecoin and the database stack.
\<close>

definition networkProps :: "Environment \<Rightarrow> NetworkStackProps" where
  "networkProps e = \<lparr>env = Some e, cidr = None, NetworkStackProps.natGateways = None\<rparr>"

definition dogecoinProps :: "Environment \<Rightarrow> NetworkStack \<Rightarrow> DogecoinStackProps" where
  "dogecoinProps e network =
     \<lparr>env = Some e,
      DogecoinStackProps.vpc = Vpc.node (NetworkStack.vpc network),
      dogeSecurityGroup = SecurityGroup.node (dogeSg network),
      DogecoinStackProps.namespace = PrivateDnsNamespace.node (NetworkStack.namespace network),
      subnetSelection = None,
      DogecoinStackProps.desiredCount = None,
      DogecoinStackProps.cpu = None,
      DogecoinStackProps.memoryMiB = None,
      containerImage = None,
      namespaceName = None,
      serviceName = None,
      DogecoinStackProps.rpcPort = None,
      p2pPort = None,
      DogecoinStackProps.zmqPort = None,
      DogecoinStackProps.environment = None\<rparr>"

definition databaseProps :: "Environment \<Rightarrow> NetworkStack \<Rightarrow> DatabaseStackProps" where
  "databaseProps e network =
     \<lparr>env = Some e,
      DatabaseStackProps.vpc = Vpc.node (NetworkStack.vpc network),
      rdsSecurityGroup = SecurityGroup.node (rdsSg network),
      DatabaseStackProps.databaseName = None,
      dbSubnetSelection = None,
      DatabaseStackProps.instanceType = None,
      DatabaseStackProps.multiAz = None,
      allocatedStorageGiB = None,
      maxAllocatedStorageGiB = None,
      DatabaseStackProps.deletionProtection = None,
      backupRetentionDays = None,
      credentialsSecretName = None\<rparr>"

definition engineProps ::
  "Environment \<Rightarrow> NetworkStack \<Rightarrow> DogecoinStack \<Rightarrow> DatabaseStack \<Rightarrow> EngineStackProps" where
  "engineProps e network doge db =
     \<lparr>env = Some e,
      EngineStackProps.vpc = Vpc.node (NetworkStack.vpc network),
      albSecurityGroup = SecurityGroup.node (albSg network),
      engineSecurityGroup = SecurityGroup.node (engineSg network),
      dbHost = hostname (instanceEndpoint (rdsInstance db)),
      dbPort = Some (Endpoint.port (instanceEndpoint (rdsInstance db))),
      dbSecret = rdsSecret db,
      EngineStackProps.databaseName = None,
      dogecoin = Some \<lparr>host = serviceDiscoveryName doge,
                         DogecoinConnection.rpcPort = Some (DogecoinStack.rpcPort doge),
                         DogecoinConnection.zmqPort = Some (DogecoinStack.zmqPort doge)\<rparr>,
      EngineStackProps.desiredCount = None,
      EngineStackProps.cpu = None,
      EngineStackProps.memoryMiB = None,
      engineContainerImage = None,
      appSubnetSelection = None,
      albSubnetSelection = None\<rparr>"

text \<open>
  \<^verbatim>\<open>new cdk.App()\<close> takes in the context that the command-line tool passes in the
  variable \<open>CDK_CONTEXT_JSON\<close>. The source reads nothing of it; what the library does
  with it when it turns the constructs into templates is not part of this model.
\<close>

record App =
  appContext :: "string option"
  network :: NetworkStack
  doge :: DogecoinStack
  db :: DatabaseStack
  engine :: EngineStack

definition new_App :: "(string \<Rightarrow> string option) \<Rightarrow> string option" where
  "new_App process_env = process_env ''CDK_CONTEXT_JSON''"

definition app_env :: "(string \<Rightarrow> string option) \<Rightarrow> Environment" where
  "app_env process_env =
     \<lparr>account = process_env ''CDK_DEFAULT_ACCOUNT'', region = process_env ''CDK_DEFAULT_REGION''\<rparr>"

definition app :: "(string \<Rightarrow> string option) \<Rightarrow> App" where
  "app process_env =
    (let e = app_env process_env;
         network = new_NetworkStack ''NetworkStack'' (Some (networkProps e));
         doge = new_DogecoinStack ''DogecoinStack'' (dogecoinProps e network);
         db = new_DatabaseStack ''DatabaseStack'' (databaseProps e network);
         engine0 = new_EngineStack ''EngineStack'' (engineProps e network doge db);
         engine1 = addDependency engine0 doge;
         engine = addDependency engine1 db
     in \<lparr>appContext = new_App process_env,
         network = network, doge = doge, db = db, engine = engine\<rparr>)"

section \<open>Reading the resource graph\<close>

text \<open>The constructs of one kind among the constructs of a stack.\<close>

fun fileSystemsOf :: "Resource list \<Rightarrow> FileSystem list" where
  "fileSystemsOf [] = []"
| "fileSystemsOf (FileSystemR f # rs) = f # fileSystemsOf rs"
| "fileSystemsOf (_ # rs) = fileSystemsOf rs"

fun databaseInstancesOf :: "Resource list \<Rightarrow> DatabaseInstance list" where
  "databaseInstancesOf [] = []"
| "databaseInstancesOf (DatabaseInstanceR d # rs) = d # databaseInstancesOf rs"
| "databaseInstancesOf (_ # rs) = databaseInstancesOf rs"

fun servicesOf :: "Resource list \<Rightarrow> FargateService list" where
  "servicesOf [] = []"
| "servicesOf (FargateServiceR f # rs) = f # servicesOf rs"
| "servicesOf (_ # rs) = servicesOf rs"

fun listenersOf :: "Resource list \<Rightarrow> ApplicationListener list" where
  "listenersOf [] = []"
| "listenersOf (ApplicationListenerR l # rs) = l # listenersOf rs"
| "listenersOf (_ # rs) = listenersOf rs"

fun targetGroupsOf :: "Resource list \<Rightarrow> ApplicationTargetGroup list" where
  "targetGroupsOf [] = []"
| "targetGroupsOf (ApplicationTargetGroupR t # rs) = t # targetGroupsOf rs"
| "targetGroupsOf (_ # rs) = targetGroupsOf rs"

fun containersOf :: "Resource list \<Rightarrow> (string \<times> ContainerDefinition) list" where
  "containersOf [] = []"
| "containersOf (FargateTaskDefinitionR t # rs) = containers t @ containersOf rs"
| "containersOf (_ # rs) = containersOf rs"

text \<open>The values the containers of a stack have in their environment under a key.\<close>

definition environmentValues :: "string \<Rightarrow> Resource list \<Rightarrow> string deferred list" where
  "environmentValues k rs =
     concat (map (\<lambda>(n, c). map snd (filter (\<lambda>(k', v). k' = k) (ContainerDefinitionOptions.environment c)))
               (containersOf rs))"

subsection \<open>Ingress\<close>

text \<open>
  What may reach a construct: for a security group its ingress rules, each a peer and a
  port; for an interface endpoint the rules of its own groups; for a file system the
  peers let in on its default port. What no rule permits a security group denies.
\<close>

datatype Connection = OnPort Port | OnDefaultPort

definition rulesOf :: "SecurityGroup \<Rightarrow> (handle \<times> Peer \<times> Connection) list" where
  "rulesOf g =
     map (\<lambda>r. case r of IngressRule p c d \<Rightarrow> (SecurityGroup.node g, p, OnPort c)) (ingressRules g)"

fun ingressOf :: "Resource \<Rightarrow> (handle \<times> Peer \<times> Connection) list" where
  "ingressOf (SecurityGroupR g) = rulesOf g"
| "ingressOf (InterfaceVpcEndpointR i) =
     concat (map rulesOf (InterfaceVpcEndpoint.securityGroups i))"
| "ingressOf (FileSystemR f) =
     map (\<lambda>(p, d). (FileSystem.node f, p, OnDefaultPort)) (defaultPortFrom f)"
| "ingressOf _ = []"

definition allConstructs :: "App \<Rightarrow> Resource list" where
  "allConstructs a =
     constructs (network a) @ constructs (doge a) @ constructs (db a) @ constructs (engine a)"

definition ingress :: "App \<Rightarrow> (handle \<times> Peer \<times> Connection) list" where
  "ingress a = concat (map ingressOf (allConstructs a))"

text \<open>
  The four tiers are the four security groups of the network stack. Traffic from one
  tier to another on a TCP port is permitted when a rule of the destination's group
  for that port admits the source: the rule's peer is the source's group, or any IPv4
  address, or a CIDR block. A block is counted as admitting every tier, since the
  tiers' addresses lie in the VPC and the only block in the source is the VPC's own.
\<close>

datatype Tier = Alb | Engine | Rds | Doge

fun tierSg :: "App \<Rightarrow> Tier \<Rightarrow> handle" where
  "tierSg a Alb = SecurityGroup.node (albSg (network a))"
| "tierSg a Engine = SecurityGroup.node (engineSg (network a))"
| "tierSg a Rds = SecurityGroup.node (rdsSg (network a))"
| "tierSg a Doge = SecurityGroup.node (dogeSg (network a))"

fun admits :: "Peer \<Rightarrow> handle \<Rightarrow> bool" where
  "admits anyIpv4 g = True"
| "admits (ipv4 c) g = True"
| "admits (SecurityGroupPeer h) g = (h = g)"

definition permits :: "App \<Rightarrow> Tier \<Rightarrow> Tier \<Rightarrow> nat \<Rightarrow> bool" where
  "permits a src dst p =
     list_ex (\<lambda>(target, peer, c).
                target = tierSg a dst \<and> c = OnPort (tcp p) \<and> admits peer (tierSg a src))
       (ingress a)"

subsection \<open>Dependencies and deployment order\<close>

text \<open>The constructs a construct holds.\<close>

fun deferredRefs :: "'a deferred \<Rightarrow> handle list" where
  "deferredRefs (Now v) = []"
| "deferredRefs (Attr h a) = [h]"

fun subnetsRefs :: "Subnets \<Rightarrow> handle list" where
  "subnetsRefs (Selection s) = []"
| "subnetsRefs (selectSubnets h s) = [h]"

fun peerRefs :: "Peer \<Rightarrow> handle list" where
  "peerRefs anyIpv4 = []"
| "peerRefs (ipv4 c) = deferredRefs c"
| "peerRefs (SecurityGroupPeer h) = [h]"

fun ruleRefs :: "IngressRule \<Rightarrow> handle list" where
  "ruleRefs (IngressRule p c d) = peerRefs p"

definition securityGroupRefs :: "SecurityGroup \<Rightarrow> handle list" where
  "securityGroupRefs g = SecurityGroup.vpc g # concat (map ruleRefs (ingressRules g))"

fun secretRefs :: "Secret \<Rightarrow> handle list" where
  "secretRefs (fromSecretsManager h f) = [h]"

definition statementRefs :: "PolicyStatement \<Rightarrow> handle list" where
  "statementRefs s = concat (map deferredRefs (resources s))"

definition containerRefs :: "ContainerDefinition \<Rightarrow> handle list" where
  "containerRefs c =
     logGroup (logging c)
     # concat (map (\<lambda>(k, v). deferredRefs v) (ContainerDefinitionOptions.environment c))
     @ concat (map (\<lambda>(k, v). secretRefs v) (secrets c))"

definition volumeRefs :: "Volume \<Rightarrow> handle list" where
  "volumeRefs v =
     deferredRefs (fileSystemId (efsVolumeConfiguration v))
     @ deferredRefs (accessPointId (authorizationConfig (efsVolumeConfiguration v)))"

fun references :: "Resource \<Rightarrow> handle list" where
  "references (VpcR v) = []"
| "references (PrivateDnsNamespaceR n) = [PrivateDnsNamespace.vpc n]"
| "references (GatewayVpcEndpointR g) = [GatewayVpcEndpoint.vpc g]"
| "references (InterfaceVpcEndpointR i) =
     InterfaceVpcEndpoint.vpc i
     # concat (map securityGroupRefs (InterfaceVpcEndpoint.securityGroups i))"
| "references (SecurityGroupR g) = securityGroupRefs g"
| "references (CfnOutputR out) = deferredRefs (ovalue out)"
| "references (DatabaseInstanceR d) =
     DatabaseInstance.vpc d # subnetsRefs (DatabaseInstance.vpcSubnets d)
     @ DatabaseInstance.securityGroups d"
| "references (RoleR r) = concat (map statementRefs (Role.statements r)) @ readGrants r"
| "references (ManagedPolicyR m) = concat (map statementRefs (ManagedPolicy.statements m))"
| "references (LogGroupR l) = []"
| "references (ClusterR c) = [Cluster.vpc c]"
| "references (FargateTaskDefinitionR t) =
     [executionRole t, taskRole t]
     @ concat (map (\<lambda>(i, c). containerRefs c) (containers t))
     @ concat (map volumeRefs (volumes t))"
| "references (FargateServiceR f) =
     [FargateService.cluster f, taskDefinition f]
     @ FargateService.securityGroups f
     @ subnetsRefs (FargateService.vpcSubnets f)
     @ (case cloudMapOptions f of None \<Rightarrow> [] | Some m \<Rightarrow> [cloudMapNamespace m])
     @ attachedTargetGroups f"
| "references (ApplicationLoadBalancerR b) =
     [ApplicationLoadBalancer.vpc b, securityGroup b]
     @ subnetsRefs (ApplicationLoadBalancer.vpcSubnets b)"
| "references (ApplicationListenerR l) =
     ApplicationListener.loadBalancer l # concat (map snd (targetGroups l))"
| "references (ApplicationTargetGroupR t) = [ApplicationTargetGroup.vpc t]"
| "references (FileSystemR f) =
     FileSystem.vpc f # subnetsRefs (FileSystem.vpcSubnets f)
     @ concat (map (\<lambda>(p, d). peerRefs p) (defaultPortFrom f))"
| "references (AccessPointR p) = [fileSystem p]"

text \<open>
  A stack depends on the stacks \<^verbatim>\<open>addDependency\<close> named and on every other stack
  that is the scope of a construct one of its own constructs holds: the library turns
  a reference across stacks into a dependency when it resolves the reference. A
  deployment order lists the four stacks once each, every stack after those it depends on.
\<close>

definition referencedStacks :: "('a Stack_scheme) \<Rightarrow> string list" where
  "referencedStacks s =
     remdups (filter (\<lambda>t. t \<noteq> stackId s) (map fst (concat (map references (constructs s)))))"

definition dependsOn :: "('a Stack_scheme) \<Rightarrow> string list" where
  "dependsOn s = remdups (dependencies s @ referencedStacks s)"

definition stackIds :: "App \<Rightarrow> string list" where
  "stackIds a = [stackId (network a), stackId (doge a), stackId (db a), stackId (engine a)]"

definition edges :: "App \<Rightarrow> (string \<times> string) list" where
  "edges a =
     map (\<lambda>d. (stackId (network a), d)) (dependsOn (network a))
     @ map (\<lambda>d. (stackId (doge a), d)) (dependsOn (doge a))
     @ map (\<lambda>d. (stackId (db a), d)) (dependsOn (db a))
     @ map (\<lambda>d. (stackId (engine a), d)) (dependsOn (engine a))"

fun position :: "'a \<Rightarrow> 'a list \<Rightarrow> nat option" where
  "position x [] = None"
| "position x (y # ys) = (if x = y then Some 0 else map_option Suc (position x ys))"

definition deploysBefore :: "string list \<Rightarrow> string \<Rightarrow> string \<Rightarrow> bool" where
  "deploysBefore order' s t =
     (case (position s order', position t order') of
        (Some i, Some j) \<Rightarrow> i < j
      | _ \<Rightarrow> False)"

definition deploymentOrder :: "App \<Rightarrow> string list \<Rightarrow> bool" where
  "deploymentOrder a order' =
     (distinct order' \<and> set order' = set (stackIds a)
      \<and> list_all (\<lambda>(s, d). deploysBefore order' d s) (edges a))"

section \<open>Facts about the constructors\<close>

subsection \<open>Handles and fields\<close>

lemma decimal_5432: "decimal 5432 = ''5432''"
  by (simp add: decimal.simps digit_def)

lemma network_nodes [simp]:
  "Vpc.node (network_vpc i np) = (i, ''FractalVpc'')"
  "PrivateDnsNamespace.node (network_namespace i v) = (i, ''ServiceNamespace'')"
  "SecurityGroup.node (network_albSg i v) = (i, ''AlbSg'')"
  "SecurityGroup.node (network_engineSg i v a) = (i, ''EngineSg'')"
  "SecurityGroup.node (network_rdsSg i v g) = (i, ''RdsSg'')"
  "SecurityGroup.node (network_dogeSg i v g) = (i, ''DogeSg'')"
  by (simp_all add: network_vpc_def network_namespace_def network_albSg_def network_engineSg_def
        network_rdsSg_def network_dogeSg_def addIngressRule_def new_SecurityGroup_def)

lemma construct_nodes [simp]:
  "DatabaseInstance.node (db_rdsInstance i bp) = (i, ''FractalDb'')"
  "FileSystem.node (doge_dogeEfs i dp sn) = (i, ''DogecoinEfs'')"
  "AccessPoint.node (doge_dogeEfsAp i f) = (i, ''DogecoinEfsAp'')"
  "Role.node (new_Role n pr ms d) = n"
  "Role.node (addToPolicy r st) = Role.node r"
  "Role.node (grantRead h r) = Role.node r"
  "LogGroup.node (new_LogGroup n) = n"
  "ManagedPolicy.node (new_ecsExecOperatorPolicy n) = n"
  "Cluster.node (doge_cluster i dp) = (i, ''DogecoinCluster'')"
  "Cluster.node (engine_cluster i ep) = (i, ''FractalCluster'')"
  "ApplicationLoadBalancer.node (engine_loadBalancer i ep) = (i, ''FractalAlb'')"
  "ApplicationTargetGroup.node (engine_tg i ep) = (i, ''EngineTargetGroup'')"
  by (simp_all add: db_rdsInstance_def Let_def doge_dogeEfs_def allowDefaultPortFrom_def
        doge_dogeEfsAp_def new_Role_def addToPolicy_def grantRead_def new_LogGroup_def
        new_ecsExecOperatorPolicy_def doge_cluster_def engine_cluster_def engine_loadBalancer_def
        engine_tg_def)

lemma taskDef_fields [simp]:
  "FargateTaskDefinition.node (doge_taskDef i dp efs ap er tr lg) = (i, ''DogecoinTaskDef'')"
  "executionRole (doge_taskDef i dp efs ap er tr lg) = Role.node er"
  "taskRole (doge_taskDef i dp efs ap er tr lg) = Role.node tr"
  "FargateTaskDefinition.node (engine_taskDef i ep er tr lg) = (i, ''FractalTaskDef'')"
  "executionRole (engine_taskDef i ep er tr lg) = Role.node er"
  "taskRole (engine_taskDef i ep er tr lg) = Role.node tr"
  "volumes (engine_taskDef i ep er tr lg) = []"
  by (simp_all add: doge_taskDef_def engine_taskDef_def Let_def addPortMappings_def
        addMountPoints_def onContainer_def addContainer_def addVolume_def
        new_FargateTaskDefinition_def)

lemma network_fields [simp]:
  "NetworkStack.vpc (new_NetworkStack i np) = network_vpc i np"
  "NetworkStack.namespace (new_NetworkStack i np) = network_namespace i (network_vpc i np)"
  "albSg (new_NetworkStack i np) = network_albSg i (network_vpc i np)"
  "engineSg (new_NetworkStack i np) =
     network_engineSg i (network_vpc i np) (network_albSg i (network_vpc i np))"
  "rdsSg (new_NetworkStack i np) =
     network_rdsSg i (network_vpc i np)
       (network_engineSg i (network_vpc i np) (network_albSg i (network_vpc i np)))"
  "dogeSg (new_NetworkStack i np) =
     network_dogeSg i (network_vpc i np)
       (network_engineSg i (network_vpc i np) (network_albSg i (network_vpc i np)))"
  "stackId (new_NetworkStack i np) = i"
  "dependencies (new_NetworkStack i np) = []"
  by (simp_all add: new_NetworkStack_def Let_def)

lemma db_fields [simp]:
  "rdsInstance (new_DatabaseStack i bp) = db_rdsInstance i bp"
  "rdsSecret (new_DatabaseStack i bp) = secret (db_rdsInstance i bp)"
  "stackId (new_DatabaseStack i bp) = i"
  "dependencies (new_DatabaseStack i bp) = []"
  by (simp_all add: new_DatabaseStack_def Let_def)

lemma doge_fields [simp]:
  "serviceDiscoveryName (new_DogecoinStack i dp) =
     nullish (serviceName dp) ''dogecoin'' @ ''.'' @ nullish (namespaceName dp) ''fractal.local''"
  "DogecoinStack.rpcPort (new_DogecoinStack i dp) = nullish (DogecoinStackProps.rpcPort dp) 22555"
  "DogecoinStack.zmqPort (new_DogecoinStack i dp) = nullish (DogecoinStackProps.zmqPort dp) 28000"
  "stackId (new_DogecoinStack i dp) = i"
  "dependencies (new_DogecoinStack i dp) = []"
  by (simp_all add: new_DogecoinStack_def Let_def)

lemma engine_fields [simp]:
  "loadBalancer (new_EngineStack i ep) = engine_loadBalancer i ep"
  "stackId (new_EngineStack i ep) = i"
  "dependencies (new_EngineStack i ep) = []"
  by (simp_all add: new_EngineStack_def Let_def)

lemma addDependency_fields [simp]:
  "constructs (addDependency s t) = constructs s"
  "stackId (addDependency s t) = stackId s"
  "dependencies (addDependency s t) = dependencies s @ [stackId t]"
  by (simp_all add: addDependency_def)

lemma app_stacks:
  "network (app e) = new_NetworkStack ''NetworkStack'' (Some (networkProps (app_env e)))"
  "doge (app e) = new_DogecoinStack ''DogecoinStack'' (dogecoinProps (app_env e) (network (app e)))"
  "db (app e) = new_DatabaseStack ''DatabaseStack'' (databaseProps (app_env e) (network (app e)))"
  "engine (app e) =
     addDependency
       (addDependency
          (new_EngineStack ''EngineStack''
             (engineProps (app_env e) (network (app e)) (doge (app e)) (db (app e))))
          (doge (app e)))
       (db (app e))"
  by (simp_all add: app_def Let_def)

lemma stackIds_app:
  "stackIds (app e) = [''NetworkStack'', ''DogecoinStack'', ''DatabaseStack'', ''EngineStack'']"
  by (simp add: stackIds_def app_stacks)

subsection \<open>Constructs of a stack\<close>

lemma constructs_db:
  "constructs (new_DatabaseStack i bp) =
     [DatabaseInstanceR (db_rdsInstance i bp),
      CfnOutputR \<lparr>CfnOutput.node = (i, ''RdsEndpoint''),
                  ovalue = Attr (i, ''FractalDb'') ''Endpoint.SocketAddress''\<rparr>,
      CfnOutputR \<lparr>CfnOutput.node = (i, ''RdsSecretName''),
                  ovalue = Attr (i, ''FractalDb/Secret/Attachment'') ''secretName''\<rparr>]"
  by (simp add: new_DatabaseStack_def Let_def db_outputs_def instanceEndpoint_def secret_def
        child_def)

lemma containers_doge_taskDef:
  "containers (doge_taskDef i dp efs ap er tr lg) =
     [(''Dogecoin'',
       \<lparr>image = nullish (containerImage dp)
                  (fromRegistry ''docker.io/danielwhelansb/dogecoin:v1.14.9''),
        ContainerDefinitionOptions.cpu = Some (nullish (DogecoinStackProps.cpu dp) 512),
        ContainerDefinitionOptions.memoryLimitMiB =
          Some (nullish (DogecoinStackProps.memoryMiB dp) 1024),
        logging = \<lparr>streamPrefix = ''dogecoin'', logGroup = LogGroup.node lg\<rparr>,
        ContainerDefinitionOptions.environment =
          object (map (\<lambda>(k, v). (k, Now v)) (nullish (DogecoinStackProps.environment dp) [])
                  @ [(''DATADIR'', Now ''/data'')]),
        secrets = [],
        essential = True,
        portMappings =
          [\<lparr>containerPort = nullish (DogecoinStackProps.rpcPort dp) 22555,
            PortMapping.protocol = TCP\<rparr>,
           \<lparr>containerPort = nullish (DogecoinStackProps.p2pPort dp) 22556,
            PortMapping.protocol = TCP\<rparr>,
           \<lparr>containerPort = nullish (DogecoinStackProps.zmqPort dp) 28000,
            PortMapping.protocol = TCP\<rparr>],
        mountPoints =
          [\<lparr>containerPath = ''/data'', sourceVolume = ''dogecoin-data'', readOnly = False\<rparr>]\<rparr>)]"
  by (simp add: doge_taskDef_def Let_def addPortMappings_def addMountPoints_def onContainer_def
        addContainer_def addVolume_def new_FargateTaskDefinition_def doge_container_def)

lemma volumes_doge_taskDef:
  "concat (map volumeRefs (volumes (doge_taskDef i dp efs ap er tr lg))) =
     [FileSystem.node efs, AccessPoint.node ap]"
  by (simp add: doge_taskDef_def Let_def addPortMappings_def addMountPoints_def onContainer_def
        addContainer_def addVolume_def new_FargateTaskDefinition_def volumeRefs_def)

lemma engine_environment:
  "ContainerDefinitionOptions.environment (engine_container ep lg) =
     [(''RPC_SERVER_HOST'', Now ''0.0.0.0''),
      (''RPC_SERVER_PORT'', Now ''8891''),
      (''CORS_ALLOWED_ORIGINS'', Now ''*''),
      (''DATABASE_HOST'', dbHost ep),
      (''DATABASE_PORT'', String_number (nullish (dbPort ep) (Now 5432))),
      (''DATABASE_NAME'', Now (nullish (EngineStackProps.databaseName ep) ''fractal''))]
     @ dogecoinEnvironment (dogecoin ep)"
  by (simp add: engine_container_def Let_def dogecoinEnvironment_def object_def
           split: option.split)

lemma engine_secrets:
  "secrets (engine_container ep lg) =
     [(''DATABASE_USERNAME'', fromSecretsManager (dbSecret ep) ''username''),
      (''DATABASE_PASSWORD'', fromSecretsManager (dbSecret ep) ''password'')]"
  by (simp add: engine_container_def Let_def object_def)

lemma containers_engine_taskDef:
  "containers (engine_taskDef i ep er tr lg) =
     [(''Engine'',
       \<lparr>image = nullish (engineContainerImage ep)
                   (fromRegistry ''ghcr.io/dogecoinfoundation/fractal-engine:v0.0.1''),
        ContainerDefinitionOptions.cpu = None,
        ContainerDefinitionOptions.memoryLimitMiB = None,
        logging = \<lparr>streamPrefix = ''engine'', logGroup = LogGroup.node lg\<rparr>,
        ContainerDefinitionOptions.environment =
          ContainerDefinitionOptions.environment (engine_container ep lg),
        secrets = secrets (engine_container ep lg),
        essential = True,
        portMappings =
          [\<lparr>containerPort = 8891, PortMapping.protocol = TCP\<rparr>,
           \<lparr>containerPort = 8086, PortMapping.protocol = TCP\<rparr>],
        mountPoints = []\<rparr>)]"
  by (simp add: engine_taskDef_def Let_def addPortMappings_def onContainer_def
        addContainer_def new_FargateTaskDefinition_def engine_container_def)

lemma constructs_engine_kinds:
  "containersOf (constructs (new_EngineStack i ep)) =
     containers (engine_taskDef i ep (new_taskExecutionRole (i, ''TaskExecutionRole''))
                   (engine_taskRole i ep) (new_LogGroup (i, ''EngineLogs'')))"
  "listenersOf (constructs (new_EngineStack i ep)) =
     [engine_httpListener (engine_loadBalancer i ep) (engine_tg i ep)]"
  "targetGroupsOf (constructs (new_EngineStack i ep)) = [engine_tg i ep]"
  by (simp_all add: new_EngineStack_def Let_def engine_outputs_def)

lemma constructs_doge_kinds:
  "fileSystemsOf (constructs (new_DogecoinStack i dp)) = [doge_dogeEfs i dp (doge_subnets dp)]"
  "servicesOf (constructs (new_DogecoinStack i dp)) =
     [doge_service i dp (doge_cluster i dp)
        (doge_taskDef i dp (doge_dogeEfs i dp (doge_subnets dp))
           (doge_dogeEfsAp i (doge_dogeEfs i dp (doge_subnets dp)))
           (doge_executionRole i (doge_dogeEfs i dp (doge_subnets dp))
              (doge_dogeEfsAp i (doge_dogeEfs i dp (doge_subnets dp))))
           (doge_taskRole i) (new_LogGroup (i, ''DogecoinLogs'')))
        (doge_subnets dp)]"
  by (simp_all add: new_DogecoinStack_def Let_def doge_outputs_def)

subsection \<open>Ingress of each stack\<close>

lemma network_ingress:
  "concat (map ingressOf (constructs (new_NetworkStack i np))) =
     [((i, ''FractalVpc/EcrDockerEndpoint/SecurityGroup''), ipv4 (Attr (i, ''FractalVpc'') ''vpcCidrBlock''),
       OnPort (tcp 443)),
      ((i, ''FractalVpc/EcrApiEndpoint/SecurityGroup''), ipv4 (Attr (i, ''FractalVpc'') ''vpcCidrBlock''),
       OnPort (tcp 443)),
      ((i, ''FractalVpc/LogsEndpoint/SecurityGroup''), ipv4 (Attr (i, ''FractalVpc'') ''vpcCidrBlock''),
       OnPort (tcp 443)),
      ((i, ''FractalVpc/SecretsManagerEndpoint/SecurityGroup''), ipv4 (Attr (i, ''FractalVpc'') ''vpcCidrBlock''),
       OnPort (tcp 443)),
      ((i, ''FractalVpc/SsmEndpoint/SecurityGroup''), ipv4 (Attr (i, ''FractalVpc'') ''vpcCidrBlock''),
       OnPort (tcp 443)),
      ((i, ''FractalVpc/SsmMessagesEndpoint/SecurityGroup''), ipv4 (Attr (i, ''FractalVpc'') ''vpcCidrBlock''),
       OnPort (tcp 443)),
      ((i, ''FractalVpc/Ec2MessagesEndpoint/SecurityGroup''), ipv4 (Attr (i, ''FractalVpc'') ''vpcCidrBlock''),
       OnPort (tcp 443)),
      ((i, ''AlbSg''), anyIpv4, OnPort (tcp 80)),
      ((i, ''EngineSg''), SecurityGroupPeer (i, ''AlbSg''), OnPort (tcp 8891)),
      ((i, ''RdsSg''), SecurityGroupPeer (i, ''EngineSg''), OnPort (tcp 5432)),
      ((i, ''DogeSg''), SecurityGroupPeer (i, ''EngineSg''), OnPort (tcp 22555)),
      ((i, ''DogeSg''), SecurityGroupPeer (i, ''EngineSg''), OnPort (tcp 22556)),
      ((i, ''DogeSg''), SecurityGroupPeer (i, ''EngineSg''), OnPort (tcp 28000))]"
  by (simp add: new_NetworkStack_def Let_def network_outputs_def network_gatewayEndpoints_def
        network_interfaceEndpoints_def addInterfaceEndpoint_def servicePort_def child_def
        network_vpc_def network_albSg_def network_engineSg_def network_rdsSg_def
        network_dogeSg_def addIngressRule_def new_SecurityGroup_def rulesOf_def)

lemma doge_ingress:
  "concat (map ingressOf (constructs (new_DogecoinStack i dp))) =
     [((i, ''DogecoinEfs''), SecurityGroupPeer (dogeSecurityGroup dp), OnDefaultPort)]"
  by (simp add: new_DogecoinStack_def Let_def doge_outputs_def doge_dogeEfs_def
        allowDefaultPortFrom_def)

lemma db_ingress: "concat (map ingressOf (constructs (new_DatabaseStack i bp))) = []"
  by (simp add: constructs_db)

lemma engine_ingress: "concat (map ingressOf (constructs (new_EngineStack i ep))) = []"
  by (simp add: new_EngineStack_def Let_def engine_outputs_def)

lemma ingress_app:
  "ingress (app e) =
     [((''NetworkStack'', ''FractalVpc/EcrDockerEndpoint/SecurityGroup''), ipv4 (Attr (''NetworkStack'', ''FractalVpc'') ''vpcCidrBlock''),
       OnPort (tcp 443)),
      ((''NetworkStack'', ''FractalVpc/EcrApiEndpoint/SecurityGroup''), ipv4 (Attr (''NetworkStack'', ''FractalVpc'') ''vpcCidrBlock''),
       OnPort (tcp 443)),
      ((''NetworkStack'', ''FractalVpc/LogsEndpoint/SecurityGroup''), ipv4 (Attr (''NetworkStack'', ''FractalVpc'') ''vpcCidrBlock''),
       OnPort (tcp 443)),
      ((''NetworkStack'', ''FractalVpc/SecretsManagerEndpoint/SecurityGroup''), ipv4 (Attr (''NetworkStack'', ''FractalVpc'') ''vpcCidrBlock''),
       OnPort (tcp 443)),
      ((''NetworkStack'', ''FractalVpc/SsmEndpoint/SecurityGroup''), ipv4 (Attr (''NetworkStack'', ''FractalVpc'') ''vpcCidrBlock''),
       OnPort (tcp 443)),
      ((''NetworkStack'', ''FractalVpc/SsmMessagesEndpoint/SecurityGroup''), ipv4 (Attr (''NetworkStack'', ''FractalVpc'') ''vpcCidrBlock''),
       OnPort (tcp 443)),
      ((''NetworkStack'', ''FractalVpc/Ec2MessagesEndpoint/SecurityGroup''), ipv4 (Attr (''NetworkStack'', ''FractalVpc'') ''vpcCidrBlock''),
       OnPort (tcp 443)),
      ((''NetworkStack'', ''AlbSg''), anyIpv4, OnPort (tcp 80)),
      ((''NetworkStack'', ''EngineSg''), SecurityGroupPeer (''NetworkStack'', ''AlbSg''),
       OnPort (tcp 8891)),
      ((''NetworkStack'', ''RdsSg''), SecurityGroupPeer (''NetworkStack'', ''EngineSg''),
       OnPort (tcp 5432)),
      ((''NetworkStack'', ''DogeSg''), SecurityGroupPeer (''NetworkStack'', ''EngineSg''),
       OnPort (tcp 22555)),
      ((''NetworkStack'', ''DogeSg''), SecurityGroupPeer (''NetworkStack'', ''EngineSg''),
       OnPort (tcp 22556)),
      ((''NetworkStack'', ''DogeSg''), SecurityGroupPeer (''NetworkStack'', ''EngineSg''),
       OnPort (tcp 28000)),
      ((''DogecoinStack'', ''DogecoinEfs''), SecurityGroupPeer (''NetworkStack'', ''DogeSg''),
       OnDefaultPort)]"
  by (simp add: ingress_def allConstructs_def app_stacks network_ingress doge_ingress db_ingress
        engine_ingress dogecoinProps_def)

subsection \<open>Stacks each stack refers to\<close>

lemma refs_network: "referencedStacks (network (app e)) = []"
  by (simp add: app_stacks referencedStacks_def new_NetworkStack_def Let_def network_outputs_def
        network_gatewayEndpoints_def network_interfaceEndpoints_def network_albSg_def
        network_engineSg_def network_rdsSg_def network_dogeSg_def addIngressRule_def
        new_SecurityGroup_def network_namespace_def addGatewayEndpoint_def
        addInterfaceEndpoint_def securityGroupRefs_def child_def)

lemma refs_db: "referencedStacks (db (app e)) = [''NetworkStack'']"
  by (simp add: app_stacks referencedStacks_def constructs_db db_rdsInstance_def Let_def
        databaseProps_def)

lemma dogecoinProps_app:
  "dogecoinProps (app_env e) (network (app e)) =
     \<lparr>env = Some (app_env e),
      DogecoinStackProps.vpc = (''NetworkStack'', ''FractalVpc''),
      dogeSecurityGroup = (''NetworkStack'', ''DogeSg''),
      DogecoinStackProps.namespace = (''NetworkStack'', ''ServiceNamespace''),
      subnetSelection = None,
      DogecoinStackProps.desiredCount = None,
      DogecoinStackProps.cpu = None,
      DogecoinStackProps.memoryMiB = None,
      containerImage = None,
      namespaceName = None,
      serviceName = None,
      DogecoinStackProps.rpcPort = None,
      p2pPort = None,
      DogecoinStackProps.zmqPort = None,
      DogecoinStackProps.environment = None\<rparr>"
  by (simp add: dogecoinProps_def app_stacks)

lemma refs_doge: "referencedStacks (doge (app e)) = [''NetworkStack'']"
  unfolding app_stacks(2) dogecoinProps_app
  by (simp add: referencedStacks_def new_DogecoinStack_def Let_def doge_outputs_def
        containers_doge_taskDef volumes_doge_taskDef containerRefs_def
        doge_cluster_def doge_subnets_def doge_dogeEfs_def allowDefaultPortFrom_def
        doge_dogeEfsAp_def doge_executionRole_def doge_taskRole_def addToPolicy_def new_Role_def
        new_taskExecutionRole_def new_ecsExecOperatorPolicy_def statementRefs_def
        doge_service_def object_def nullish_def)

lemma engineProps_app:
  "engineProps (app_env e) (network (app e)) (doge (app e)) (db (app e)) =
     \<lparr>env = Some (app_env e),
      EngineStackProps.vpc = (''NetworkStack'', ''FractalVpc''),
      albSecurityGroup = (''NetworkStack'', ''AlbSg''),
      engineSecurityGroup = (''NetworkStack'', ''EngineSg''),
      dbHost = Attr (''DatabaseStack'', ''FractalDb'') ''Endpoint.Address'',
      dbPort = Some (Attr (''DatabaseStack'', ''FractalDb'') ''Endpoint.Port''),
      dbSecret = (''DatabaseStack'', ''FractalDb/Secret/Attachment''),
      EngineStackProps.databaseName = None,
      dogecoin = Some \<lparr>host = ''dogecoin.fractal.local'',
                         DogecoinConnection.rpcPort = Some 22555,
                         DogecoinConnection.zmqPort = Some 28000\<rparr>,
      EngineStackProps.desiredCount = None,
      EngineStackProps.cpu = None,
      EngineStackProps.memoryMiB = None,
      engineContainerImage = None,
      appSubnetSelection = None,
      albSubnetSelection = None\<rparr>"
  by (simp add: engineProps_def app_stacks dogecoinProps_def nullish_def instanceEndpoint_def
        secret_def child_def)

lemma refs_engine: "referencedStacks (engine (app e)) = [''DatabaseStack'', ''NetworkStack'']"
  unfolding app_stacks(4) engineProps_app
  by (simp add: referencedStacks_def new_EngineStack_def Let_def engine_outputs_def
        containers_engine_taskDef containerRefs_def engine_environment engine_secrets
        dogecoinEnvironment_def
        engine_cluster_def engine_taskRole_def addToPolicy_def grantRead_def new_Role_def
        new_taskExecutionRole_def new_ecsExecOperatorPolicy_def statementRefs_def
        engine_service_def attachToApplicationTargetGroup_def engine_loadBalancer_def
        engine_httpListener_def addListener_def addTargetGroups_def engine_tg_def child_def nullish_def)

lemma edges_app:
  "edges (app e) =
     [(''DogecoinStack'', ''NetworkStack''),
      (''DatabaseStack'', ''NetworkStack''),
      (''EngineStack'', ''DogecoinStack''),
      (''EngineStack'', ''DatabaseStack''),
      (''EngineStack'', ''NetworkStack'')]"
  by (simp add: edges_def dependsOn_def refs_network refs_doge refs_db refs_engine)
     (simp add: app_stacks)

subsection \<open>Environment of the engine container\<close>

lemma engineProps_fields [simp]:
  "EngineStackProps.databaseName (engineProps x n d b) = None"
  "dbSecret (engineProps x n d b) = rdsSecret b"
  by (simp_all add: engineProps_def)

lemma dogecoinEnvironment_keys:
  "map fst (dogecoinEnvironment c) =
     (if (\<exists>d. c = Some d \<and> host d \<noteq> [])
      then [''DOGE_HOST'', ''DOGE_PORT'', ''DOGECOIN_ZMQ_PORT''] else [])"
  by (cases c) (simp_all add: dogecoinEnvironment_def)

lemma dogecoinEnvironment_other:
  assumes "k \<noteq> ''DOGE_HOST''" and "k \<noteq> ''DOGE_PORT''" and "k \<noteq> ''DOGECOIN_ZMQ_PORT''"
  shows "filter (\<lambda>(k', v). k' = k) (dogecoinEnvironment c) = []"
proof (cases c)
  case None
  then show ?thesis by (simp add: dogecoinEnvironment_def)
next
  case (Some d)
  show ?thesis
  proof (cases "host d = []")
    case True
    with Some show ?thesis by (simp add: dogecoinEnvironment_def)
  next
    case False
    with Some assms show ?thesis by (simp add: dogecoinEnvironment_def)
  qed
qed

lemma engine_DATABASE_NAME:
  "environmentValues ''DATABASE_NAME'' (constructs (new_EngineStack i ep)) =
     [Now (nullish (EngineStackProps.databaseName ep) ''fractal'')]"
  by (simp add: environmentValues_def constructs_engine_kinds containers_engine_taskDef
        engine_environment dogecoinEnvironment_other)

lemma engine_DATABASE_PORT:
  "environmentValues ''DATABASE_PORT'' (constructs (new_EngineStack i ep)) =
     [String_number (nullish (dbPort ep) (Now 5432))]"
  by (simp add: environmentValues_def constructs_engine_kinds containers_engine_taskDef
        engine_environment dogecoinEnvironment_other)

lemma db_databaseName:
  "map DatabaseInstance.databaseName (databaseInstancesOf (constructs (new_DatabaseStack i bp))) =
     [nullish (DatabaseStackProps.databaseName bp) ''fractal'']"
  by (simp add: constructs_db db_rdsInstance_def Let_def)

section \<open>The claims\<close>

subsection \<open>C1\<close>

text \<open>
  C1, as the specification has it: for every value of the \<open>databaseName\<close> option the
  name of the provisioned database and the \<open>DATABASE_NAME\<close> of the engine container are
  identical, a change of the option reaching both.

  The source has two options of that name, one of the database stack and one of the
  engine stack, and the application passes neither. With the application's own
  properties for both stacks and \<open>databaseName\<close> set to \<open>ledger\<close> on the database
  stack, the database is named \<open>ledger\<close> and the container is told \<open>fractal\<close>.
\<close>

theorem databaseName_option_not_propagated:
  "map DatabaseInstance.databaseName
     (databaseInstancesOf (constructs (new_DatabaseStack ''DatabaseStack''
        ((databaseProps \<lparr>account = None, region = None\<rparr>
            (new_NetworkStack ''NetworkStack'' (Some (networkProps \<lparr>account = None, region = None\<rparr>))))
           \<lparr>DatabaseStackProps.databaseName := Some ''ledger''\<rparr>)))) = [''ledger''] \<and>
   environmentValues ''DATABASE_NAME'' (constructs (new_EngineStack ''EngineStack''
     (engineProps \<lparr>account = None, region = None\<rparr>
        (new_NetworkStack ''NetworkStack'' (Some (networkProps \<lparr>account = None, region = None\<rparr>)))
        (new_DogecoinStack ''DogecoinStack''
           (dogecoinProps \<lparr>account = None, region = None\<rparr>
              (new_NetworkStack ''NetworkStack'' (Some (networkProps \<lparr>account = None, region = None\<rparr>)))))
        (new_DatabaseStack ''DatabaseStack''
           ((databaseProps \<lparr>account = None, region = None\<rparr>
               (new_NetworkStack ''NetworkStack'' (Some (networkProps \<lparr>account = None, region = None\<rparr>))))
              \<lparr>DatabaseStackProps.databaseName := Some ''ledger''\<rparr>))))) = [Now ''fractal'']"
  by (simp add: db_databaseName engine_DATABASE_NAME nullish_def)

text \<open>
  C1, amended: when the database stack and the engine stack are given the same
  \<open>databaseName\<close> option (the same value, or both none), the one database instance is
  named by it and the one \<open>DATABASE_NAME\<close> entry carries the same name, \<open>fractal\<close>
  when the option is omitted.
\<close>

theorem databaseName_agrees_when_options_agree:
  assumes "DatabaseStackProps.databaseName bp = EngineStackProps.databaseName ep"
  shows "map (\<lambda>d. Now (DatabaseInstance.databaseName d))
           (databaseInstancesOf (constructs (new_DatabaseStack i bp))) =
           [Now (nullish (DatabaseStackProps.databaseName bp) ''fractal'')] \<and>
         environmentValues ''DATABASE_NAME'' (constructs (new_EngineStack j ep)) =
           [Now (nullish (DatabaseStackProps.databaseName bp) ''fractal'')]"
  using assms by (simp add: engine_DATABASE_NAME constructs_db db_rdsInstance_def Let_def)

text \<open>The amended statement at the option \<open>ledger\<close> on both stacks.\<close>

theorem databaseName_agrees_when_options_agree_witness:
  "DatabaseStackProps.databaseName
     ((databaseProps \<lparr>account = None, region = None\<rparr> (new_NetworkStack ''NetworkStack'' None))
        \<lparr>DatabaseStackProps.databaseName := Some ''ledger''\<rparr>) =
   EngineStackProps.databaseName
     ((engineProps \<lparr>account = None, region = None\<rparr> (new_NetworkStack ''NetworkStack'' None)
         (new_DogecoinStack ''DogecoinStack''
            (dogecoinProps \<lparr>account = None, region = None\<rparr> (new_NetworkStack ''NetworkStack'' None)))
         (new_DatabaseStack ''DatabaseStack''
            ((databaseProps \<lparr>account = None, region = None\<rparr> (new_NetworkStack ''NetworkStack'' None))
               \<lparr>DatabaseStackProps.databaseName := Some ''ledger''\<rparr>)))
        \<lparr>EngineStackProps.databaseName := Some ''ledger''\<rparr>) \<and>
   map (\<lambda>d. Now (DatabaseInstance.databaseName d))
     (databaseInstancesOf (constructs (new_DatabaseStack ''DatabaseStack''
        ((databaseProps \<lparr>account = None, region = None\<rparr> (new_NetworkStack ''NetworkStack'' None))
           \<lparr>DatabaseStackProps.databaseName := Some ''ledger''\<rparr>)))) = [Now ''ledger''] \<and>
   environmentValues ''DATABASE_NAME'' (constructs (new_EngineStack ''EngineStack''
     ((engineProps \<lparr>account = None, region = None\<rparr> (new_NetworkStack ''NetworkStack'' None)
         (new_DogecoinStack ''DogecoinStack''
            (dogecoinProps \<lparr>account = None, region = None\<rparr> (new_NetworkStack ''NetworkStack'' None)))
         (new_DatabaseStack ''DatabaseStack''
            ((databaseProps \<lparr>account = None, region = None\<rparr> (new_NetworkStack ''NetworkStack'' None))
               \<lparr>DatabaseStackProps.databaseName := Some ''ledger''\<rparr>)))
        \<lparr>EngineStackProps.databaseName := Some ''ledger''\<rparr>))) = [Now ''ledger'']"
  (is "?same \<and> ?db \<and> ?env")
proof -
  have same: ?same by (simp add: databaseProps_def)
  from databaseName_agrees_when_options_agree [OF same, of "''DatabaseStack''" "''EngineStack''"] same
  show ?thesis by (simp add: nullish_def databaseProps_def)
qed

subsection \<open>C2\<close>

text \<open>
  C2, as the specification has it: ingress from one tier to another is permitted only
  on the declared paths (ALB to engine on TCP 8891, engine to database on TCP 5432,
  engine to Dogecoin on TCP 22555, 22556 and 28000), every other path between tiers
  being denied.

  The ALB group has the rule \<open>HTTP from anywhere\<close>: any IPv4 address on TCP 80. It
  admits the other tiers as it admits everyone, so the engine tier reaches the ALB tier
  on TCP 80, which is none of the declared paths.
\<close>

theorem engine_reaches_alb_on_80:
  "permits (app Map.empty) Engine Alb 80 \<and>
   (Engine, Alb, 80) \<notin> {(Alb, Engine, 8891), (Engine, Rds, 5432), (Engine, Doge, 22555),
                          (Engine, Doge, 22556), (Engine, Doge, 28000 :: nat)}"
  by (simp add: permits_def ingress_app app_stacks(1))

text \<open>
  C2, amended: traffic from a tier to a tier on a TCP port is permitted exactly on the
  five declared paths and, from every tier, to the ALB group on TCP 80; every other
  path between tiers is denied.
\<close>

theorem ingress_only_on_declared_paths:
  "permits (app e) src dst p \<longleftrightarrow>
     (src, dst, p) \<in> {(Alb, Engine, 8891), (Engine, Rds, 5432), (Engine, Doge, 22555),
                      (Engine, Doge, 22556), (Engine, Doge, 28000)}
     \<or> (dst = Alb \<and> p = 80)"
  by (cases src; cases dst; simp add: permits_def ingress_app app_stacks(1))

subsection \<open>C3\<close>

text \<open>
  C3: in every deployment order of the application's four stacks, the engine stack
  comes after the Dogecoin stack and after the database stack, and the network stack
  comes before the Dogecoin stack and before the database stack. The first two follow
  from the two \<^verbatim>\<open>addDependency\<close> calls, the last two from the network constructs
  the other stacks hold.
\<close>

theorem deployment_order_respects_dependencies:
  "deploymentOrder (app e) order' \<Longrightarrow>
     deploysBefore order' ''DogecoinStack'' ''EngineStack'' \<and>
     deploysBefore order' ''DatabaseStack'' ''EngineStack'' \<and>
     deploysBefore order' ''NetworkStack'' ''DogecoinStack'' \<and>
     deploysBefore order' ''NetworkStack'' ''DatabaseStack''"
  by (simp add: deploymentOrder_def edges_app)

text \<open>
  One such order, with no variable set in the process environment: network, database,
  Dogecoin, engine.
\<close>

theorem deployment_order_respects_dependencies_witness:
  "deploymentOrder (app Map.empty)
     [''NetworkStack'', ''DatabaseStack'', ''DogecoinStack'', ''EngineStack''] \<and>
   deploysBefore [''NetworkStack'', ''DatabaseStack'', ''DogecoinStack'', ''EngineStack'']
     ''DogecoinStack'' ''EngineStack'' \<and>
   deploysBefore [''NetworkStack'', ''DatabaseStack'', ''DogecoinStack'', ''EngineStack'']
     ''DatabaseStack'' ''EngineStack'' \<and>
   deploysBefore [''NetworkStack'', ''DatabaseStack'', ''DogecoinStack'', ''EngineStack'']
     ''NetworkStack'' ''DogecoinStack'' \<and>
   deploysBefore [''NetworkStack'', ''DatabaseStack'', ''DogecoinStack'', ''EngineStack'']
     ''NetworkStack'' ''DatabaseStack''"
proof -
  have ord: "deploymentOrder (app Map.empty)
               [''NetworkStack'', ''DatabaseStack'', ''DogecoinStack'', ''EngineStack'']"
    by (simp add: deploymentOrder_def edges_app stackIds_app deploysBefore_def) auto
  from deployment_order_respects_dependencies [OF ord] ord show ?thesis by simp
qed

subsection \<open>C4\<close>

text \<open>
  C4: the service-discovery hostname the Dogecoin stack exports, as its field
  \<open>serviceDiscoveryName\<close> and as its output \<open>DogecoinServiceDiscoveryName\<close>, is the
  service name, a dot and the namespace name, each taken from its option or, where the
  option is omitted, \<open>dogecoin\<close> and \<open>fractal.local\<close>: with both options given it
  is their concatenation around the dot, with both omitted it is
  \<open>dogecoin.fractal.local\<close>.
\<close>

theorem serviceDiscoveryName_pattern:
  "serviceDiscoveryName (new_DogecoinStack i dp) =
     nullish (serviceName dp) ''dogecoin'' @ ''.'' @ nullish (namespaceName dp) ''fractal.local'' \<and>
   serviceDiscoveryName (new_DogecoinStack i (dp\<lparr>serviceName := Some s, namespaceName := Some n\<rparr>)) =
     s @ ''.'' @ n \<and>
   serviceDiscoveryName (new_DogecoinStack i (dp\<lparr>serviceName := None, namespaceName := None\<rparr>)) =
     ''dogecoin.fractal.local'' \<and>
   CfnOutputR \<lparr>CfnOutput.node = (i, ''DogecoinServiceDiscoveryName''),
               ovalue = Now (serviceDiscoveryName (new_DogecoinStack i dp))\<rparr>
     \<in> set (constructs (new_DogecoinStack i dp))"
proof -
  have "CfnOutputR \<lparr>CfnOutput.node = (i, ''DogecoinServiceDiscoveryName''),
               ovalue = Now (serviceDiscoveryName (new_DogecoinStack i dp))\<rparr>
     \<in> set (constructs (new_DogecoinStack i dp))"
    by (simp add: new_DogecoinStack_def Let_def doge_outputs_def)
  then show ?thesis
    by (simp add: nullish_def)
qed

subsection \<open>C5\<close>

text \<open>
  C5: for every properties record, the engine stack has one container, \<open>Engine\<close>,
  whose environment has the keys \<open>RPC_SERVER_HOST\<close>, \<open>RPC_SERVER_PORT\<close>,
  \<open>CORS_ALLOWED_ORIGINS\<close>, \<open>DATABASE_HOST\<close>, \<open>DATABASE_PORT\<close> and
  \<open>DATABASE_NAME\<close>, followed by \<open>DOGE_HOST\<close>, \<open>DOGE_PORT\<close> and
  \<open>DOGECOIN_ZMQ_PORT\<close> exactly when a Dogecoin connection is supplied whose host is
  not the empty string, and whose secrets are \<open>DATABASE_USERNAME\<close> and
  \<open>DATABASE_PASSWORD\<close>, the fields \<open>username\<close> and \<open>password\<close> of the database
  secret.
\<close>

theorem engine_container_environment:
  "map (\<lambda>(n, c). (n, map fst (ContainerDefinitionOptions.environment c), secrets c))
     (containersOf (constructs (new_EngineStack i ep))) =
   [(''Engine'',
     [''RPC_SERVER_HOST'', ''RPC_SERVER_PORT'', ''CORS_ALLOWED_ORIGINS'',
      ''DATABASE_HOST'', ''DATABASE_PORT'', ''DATABASE_NAME'']
     @ (if (\<exists>d. dogecoin ep = Some d \<and> host d \<noteq> [])
        then [''DOGE_HOST'', ''DOGE_PORT'', ''DOGECOIN_ZMQ_PORT''] else []),
     [(''DATABASE_USERNAME'', fromSecretsManager (dbSecret ep) ''username''),
      (''DATABASE_PASSWORD'', fromSecretsManager (dbSecret ep) ''password'')])]"
  by (simp add: constructs_engine_kinds containers_engine_taskDef engine_environment engine_secrets
        dogecoinEnvironment_keys)

subsection \<open>C6\<close>

text \<open>
  C6: with \<open>databaseName\<close> omitted, the database stack has exactly one database
  instance; its engine is PostgreSQL, its database name is \<open>fractal\<close>, and its
  generated credentials leave out the characters \<^verbatim>\<open>"@/\:?#[]{}|^~;=%&+()<>\<close>. With
  \<open>dbPort\<close> omitted, the containers of the engine stack have exactly one
  \<open>DATABASE_PORT\<close> entry, and it is \<open>5432\<close>.
\<close>

theorem defaults_applied_once:
  "map (\<lambda>d. (DatabaseInstance.engine d, DatabaseInstance.databaseName d,
              excludeCharacters (credentials d)))
     (databaseInstancesOf
        (constructs (new_DatabaseStack i (bp\<lparr>DatabaseStackProps.databaseName := None\<rparr>)))) =
     [(postgres (PostgresEngineVersion_of ''15'' ''15''), ''fractal'',
       [CHR 0x22] @ ''@/'' @ [CHR 0x5C] @ '':?#[]{}|^~;=%&+()<>'')] \<and>
   environmentValues ''DATABASE_PORT'' (constructs (new_EngineStack j (ep\<lparr>dbPort := None\<rparr>))) =
     [Now ''5432'']"
  by (simp add: constructs_db db_rdsInstance_def Let_def db_dbCredentials_def excluded_def
        nullish_def engine_DATABASE_PORT decimal_5432)

subsection \<open>C7\<close>

text \<open>
  C7: the engine stack has exactly one listener: it belongs to the stack's load
  balancer, listens on port 80 and forwards to the target group \<open>EngineTargetGroup\<close>.
  That is the stack's only target group; its protocol is HTTP, its health check asks
  for \<open>/health\<close>, accepts the code 200 and runs every 30 seconds, and its
  deregistration delay is 10 seconds.
\<close>

theorem load_balancer_listener_and_health_check:
  "map (\<lambda>l. (ApplicationListener.loadBalancer l, ApplicationListener.port l, targetGroups l))
     (listenersOf (constructs (new_EngineStack i ep))) =
     [(ApplicationLoadBalancer.node (loadBalancer (new_EngineStack i ep)), 80,
       [(''AttachEngineTg'', [(i, ''EngineTargetGroup'')])])] \<and>
   map (\<lambda>t. (ApplicationTargetGroup.node t, ApplicationTargetGroup.protocol t,
              HealthCheck.path (healthCheck t), healthyHttpCodes (healthCheck t),
              interval (healthCheck t), deregistrationDelay t))
     (targetGroupsOf (constructs (new_EngineStack i ep))) =
     [((i, ''EngineTargetGroup''), HTTP, ''/health'', ''200'', seconds 30, seconds 10)]"
  by (simp add: constructs_engine_kinds engine_httpListener_def addListener_def addTargetGroups_def
        engine_tg_def)

subsection \<open>C9\<close>

lemma doge_ignores_subnetSelection:
  "doge_cluster i (dp\<lparr>subnetSelection := s\<rparr>) = doge_cluster i dp"
  "doge_subnets (dp\<lparr>subnetSelection := s\<rparr>) = doge_subnets dp"
  "doge_dogeEfs i (dp\<lparr>subnetSelection := s\<rparr>) = doge_dogeEfs i dp"
  "doge_taskDef i (dp\<lparr>subnetSelection := s\<rparr>) = doge_taskDef i dp"
  "doge_service i (dp\<lparr>subnetSelection := s\<rparr>) = doge_service i dp"
  "DogecoinStackProps.rpcPort (dp\<lparr>subnetSelection := s\<rparr>) = DogecoinStackProps.rpcPort dp"
  "DogecoinStackProps.zmqPort (dp\<lparr>subnetSelection := s\<rparr>) = DogecoinStackProps.zmqPort dp"
  "namespaceName (dp\<lparr>subnetSelection := s\<rparr>) = namespaceName dp"
  "serviceName (dp\<lparr>subnetSelection := s\<rparr>) = serviceName dp"
  "env (dp\<lparr>subnetSelection := s\<rparr>) = env dp"
  by (simp_all add: doge_cluster_def doge_subnets_def doge_dogeEfs_def doge_taskDef_def
        doge_container_def doge_service_def fun_eq_iff)

text \<open>
  C9: for every properties record of the Dogecoin stack, its one file system and its
  one service are placed in the subnets that \<^verbatim>\<open>selectSubnets\<close> picks from the VPC
  by the type \<open>PRIVATE_WITH_EGRESS\<close>; the option \<open>subnetSelection\<close> is never read,
  so the stack is the same whatever the option holds.
\<close>

theorem dogecoin_subnets_private_with_egress:
  "map FileSystem.vpcSubnets (fileSystemsOf (constructs (new_DogecoinStack i dp))) =
     [selectSubnets (DogecoinStackProps.vpc dp)
        \<lparr>SubnetSelection.subnetType = Some PRIVATE_WITH_EGRESS\<rparr>] \<and>
   map FargateService.vpcSubnets (servicesOf (constructs (new_DogecoinStack i dp))) =
     [selectSubnets (DogecoinStackProps.vpc dp)
        \<lparr>SubnetSelection.subnetType = Some PRIVATE_WITH_EGRESS\<rparr>] \<and>
   new_DogecoinStack i (dp\<lparr>subnetSelection := s\<rparr>) = new_DogecoinStack i dp"
proof -
  have "new_DogecoinStack i (dp\<lparr>subnetSelection := s\<rparr>) = new_DogecoinStack i dp"
    by (simp only: new_DogecoinStack_def doge_ignores_subnetSelection)
  then show ?thesis
    by (simp add: constructs_doge_kinds doge_dogeEfs_def allowDefaultPortFrom_def doge_service_def
          doge_subnets_def)
qed

subsection \<open>C10\<close>

text \<open>
  C10: for every properties record of the database stack, its one database instance
  has \<open>publiclyAccessible\<close> false, so no option makes it publicly accessible; with
  \<open>dbSubnetSelection\<close> omitted the instance is placed in the subnets of type
  \<open>PRIVATE_ISOLATED\<close>.
\<close>

theorem database_never_publicly_accessible:
  "map publiclyAccessible (databaseInstancesOf (constructs (new_DatabaseStack i bp))) = [False] \<and>
   publiclyAccessible (rdsInstance (new_DatabaseStack i bp)) = False \<and>
   DatabaseInstance.vpcSubnets (rdsInstance (new_DatabaseStack i (bp\<lparr>dbSubnetSelection := None\<rparr>))) =
     Selection \<lparr>SubnetSelection.subnetType = Some PRIVATE_ISOLATED\<rparr>"
  by (simp add: constructs_db db_rdsInstance_def Let_def nullish_def)

end
